theory Spec2Isabelle
  imports Main "HOL-Library.Multiset"
begin

section \<open>Catalog schema (pycodex/models/database.py)\<close>

text \<open>
  Each mapped class is a record of its columns; a nullable column is an \<open>option\<close>.
  Primary keys are natural numbers, line numbers are Python integers, time stamps are
  integers. The \<open>args\<close>, \<open>decorators\<close> and \<open>base_classes\<close> columns hold the JSON text of a
  list of strings; the model keeps the list that the text encodes.

  A Python string is the list of its Unicode code points. \<open>str\<close> gives the string of a
  literal of this theory, whose characters are ASCII.
\<close>

type_synonym py_str = "nat list"

definition code_point :: "char \<Rightarrow> nat" where
  "code_point ch = of_char ch"

definition str :: "string \<Rightarrow> py_str" where
  "str s = map code_point s"

record project_row =
  p_id :: nat
  p_name :: py_str
  p_root_path :: py_str
  p_created_at :: int
  p_updated_at :: int

record module_row =
  m_id :: nat
  m_project_id :: nat
  m_name :: py_str
  m_path :: py_str
  m_docstring :: "py_str option"
  m_last_indexed :: int

record function_row =
  f_id :: nat
  f_module_id :: nat
  f_class_id :: "nat option"
  f_name :: py_str
  f_docstring :: "py_str option"
  f_lineno :: int
  f_end_lineno :: int
  f_args :: "py_str list"
  f_decorators :: "py_str list"
  f_return_annotation :: "py_str option"

record class_row =
  c_id :: nat
  c_module_id :: nat
  c_name :: py_str
  c_docstring :: "py_str option"
  c_lineno :: int
  c_end_lineno :: int
  c_base_classes :: "py_str list"
  c_decorators :: "py_str list"

record import_row =
  i_id :: nat
  i_module_id :: nat
  i_module_name :: py_str
  i_alias :: "py_str option"
  i_is_from_import :: bool
  i_parent_module :: "py_str option"

record variable_row =
  v_id :: nat
  v_module_id :: nat
  v_name :: py_str
  v_lineno :: int
  v_value :: "py_str option"

text \<open>The database: one list of rows per table, in insertion order.\<close>

record catalog =
  project_rows :: "project_row list"
  module_rows :: "module_row list"
  function_rows :: "function_row list"
  class_rows :: "class_row list"
  import_rows :: "import_row list"
  variable_rows :: "variable_row list"

definition empty_catalog :: catalog where
  "empty_catalog =
     \<lparr>project_rows = [], module_rows = [], function_rows = [], class_rows = [], import_rows = [],
      variable_rows = []\<rparr>"

text \<open>
  The tables are created by SQLAlchemy on SQLite with a plain integer primary key, so a
  new row gets one more than the largest id in use in its table, and 1 in an empty table.
\<close>

definition fresh_id :: "nat list \<Rightarrow> nat" where
  "fresh_id ids = Suc (fold max ids 0)"

section \<open>Parsed descriptions (dataclasses of pycodex/core/parser.py)\<close>

record ImportInfo =
  ii_module_name :: py_str
  ii_alias :: "py_str option"
  ii_is_from_import :: bool
  ii_parent_module :: "py_str option"

record FunctionInfo =
  fi_name :: py_str
  fi_docstring :: "py_str option"
  fi_lineno :: int
  fi_end_lineno :: int
  fi_args :: "py_str list"
  fi_decorators :: "py_str list"
  fi_return_annotation :: "py_str option"

record ClassInfo =
  ci_name :: py_str
  ci_docstring :: "py_str option"
  ci_lineno :: int
  ci_end_lineno :: int
  ci_methods :: "FunctionInfo list"
  ci_base_classes :: "py_str list"
  ci_decorators :: "py_str list"

text \<open>
  \<open>mi_path\<close> is \<open>str(module_info.path)\<close> and \<open>mi_module_name\<close> the value of the property
  \<open>module_name\<close> (the stem of the path). \<open>mi_variables\<close> is the dictionary as the list of
  its items in iteration order.
\<close>

record ModuleInfo =
  mi_path :: py_str
  mi_module_name :: py_str
  mi_docstring :: "py_str option"
  mi_imports :: "ImportInfo list"
  mi_functions :: "FunctionInfo list"
  mi_classes :: "ClassInfo list"
  mi_variables :: "(py_str \<times> int \<times> py_str) list"

section \<open>The store and its failures\<close>

text \<open>
  Every statement that the session sends to the database may raise. Which ones do is a
  parameter of the model: a predicate on statements. A statement that raises leaves the
  tables as they are.
\<close>

datatype statement =
    SelectProject py_str
  | InsertProject project_row
  | SelectModule nat py_str
  | InsertModule module_row
  | DeleteFunctions nat
  | DeleteClasses nat
  | DeleteImports nat
  | DeleteVariables nat
  | InsertImport import_row
  | InsertVariable variable_row
  | InsertClass class_row
  | InsertFunction function_row
  | UpdateModule nat int
  | Commit
  | RefreshProject nat

datatype error = StorageFailure statement

type_synonym store = "statement \<Rightarrow> bool"

definition healthy :: store where
  "healthy = (\<lambda>st. False)"

definition execute :: "store \<Rightarrow> statement \<Rightarrow> (catalog \<Rightarrow> catalog) \<Rightarrow> catalog \<Rightarrow> error + catalog" where
  "execute fails st effect c = (if fails st then Inl (StorageFailure st) else Inr (effect c))"

fun for_each :: "('a \<Rightarrow> catalog \<Rightarrow> error + catalog) \<Rightarrow> 'a list \<Rightarrow> catalog \<Rightarrow> error + catalog" where
  "for_each body [] c = Inr c"
| "for_each body (x # xs) c =
     (case body x c of Inl e \<Rightarrow> Inl e | Inr c' \<Rightarrow> for_each body xs c')"

section \<open>Indexer (pycodex/core/indexer.py)\<close>

text \<open>\<open>session.add\<close> followed by a flush: the \<open>INSERT\<close> appends the row to its table.\<close>

definition add_project :: "project_row \<Rightarrow> catalog \<Rightarrow> catalog" where
  "add_project row c = c\<lparr>project_rows := project_rows c @ [row]\<rparr>"

definition add_module :: "module_row \<Rightarrow> catalog \<Rightarrow> catalog" where
  "add_module row c = c\<lparr>module_rows := module_rows c @ [row]\<rparr>"

definition add_import :: "import_row \<Rightarrow> catalog \<Rightarrow> catalog" where
  "add_import row c = c\<lparr>import_rows := import_rows c @ [row]\<rparr>"

definition add_variable :: "variable_row \<Rightarrow> catalog \<Rightarrow> catalog" where
  "add_variable row c = c\<lparr>variable_rows := variable_rows c @ [row]\<rparr>"

definition add_class :: "class_row \<Rightarrow> catalog \<Rightarrow> catalog" where
  "add_class row c = c\<lparr>class_rows := class_rows c @ [row]\<rparr>"

definition add_function :: "function_row \<Rightarrow> catalog \<Rightarrow> catalog" where
  "add_function row c = c\<lparr>function_rows := function_rows c @ [row]\<rparr>"

definition index_import :: "store \<Rightarrow> nat \<Rightarrow> ImportInfo \<Rightarrow> catalog \<Rightarrow> error + catalog" where
  "index_import fails module_id import_info c =
     (let import_db =
        \<lparr>i_id = fresh_id (map i_id (import_rows c)),
         i_module_id = module_id,
         i_module_name = ii_module_name import_info,
         i_alias = ii_alias import_info,
         i_is_from_import = ii_is_from_import import_info,
         i_parent_module = ii_parent_module import_info\<rparr>
      in execute fails (InsertImport import_db)
           (add_import import_db) c)"

definition index_function ::
  "store \<Rightarrow> nat \<Rightarrow> nat option \<Rightarrow> FunctionInfo \<Rightarrow> catalog \<Rightarrow> error + catalog" where
  "index_function fails module_id class_id func_info c =
     (let function =
        \<lparr>f_id = fresh_id (map f_id (function_rows c)),
         f_module_id = module_id,
         f_class_id = class_id,
         f_name = fi_name func_info,
         f_docstring = fi_docstring func_info,
         f_lineno = fi_lineno func_info,
         f_end_lineno = fi_end_lineno func_info,
         f_args = fi_args func_info,
         f_decorators = fi_decorators func_info,
         f_return_annotation = fi_return_annotation func_info\<rparr>
      in execute fails (InsertFunction function)
           (add_function function) c)"

definition index_class :: "store \<Rightarrow> nat \<Rightarrow> ClassInfo \<Rightarrow> catalog \<Rightarrow> error + catalog" where
  "index_class fails module_id class_info c =
     (let class_db =
        \<lparr>c_id = fresh_id (map c_id (class_rows c)),
         c_module_id = module_id,
         c_name = ci_name class_info,
         c_docstring = ci_docstring class_info,
         c_lineno = ci_lineno class_info,
         c_end_lineno = ci_end_lineno class_info,
         c_base_classes = ci_base_classes class_info,
         c_decorators = ci_decorators class_info\<rparr>
      in case execute fails (InsertClass class_db)
                (add_class class_db) c of
           Inl e \<Rightarrow> Inl e
         | Inr c1 \<Rightarrow>
             for_each (index_function fails module_id (Some (c_id class_db)))
               (ci_methods class_info) c1)"

definition index_variable ::
  "store \<Rightarrow> nat \<Rightarrow> py_str \<times> int \<times> py_str \<Rightarrow> catalog \<Rightarrow> error + catalog" where
  "index_variable fails module_id item c =
     (case item of (name, lineno, val) \<Rightarrow>
        let variable =
          \<lparr>v_id = fresh_id (map v_id (variable_rows c)),
           v_module_id = module_id,
           v_name = name,
           v_lineno = lineno,
           v_value = Some val\<rparr>
        in execute fails (InsertVariable variable)
             (add_variable variable) c)"

text \<open>
  \<open>Query.delete()\<close> is one \<open>DELETE ... WHERE\<close> statement on one table. The schema declares
  no \<open>ON DELETE\<close> action on \<open>functions.class_id\<close> and the relationship \<open>Class.methods\<close> has
  no delete cascade, so deleting the classes of a module removes rows of \<open>classes\<close> only.
\<close>

definition delete_functions :: "nat \<Rightarrow> catalog \<Rightarrow> catalog" where
  "delete_functions module_id c =
     c\<lparr>function_rows :=
         filter (\<lambda>f. \<not> (f_module_id f = module_id \<and> f_class_id f = None)) (function_rows c)\<rparr>"

definition delete_classes :: "nat \<Rightarrow> catalog \<Rightarrow> catalog" where
  "delete_classes module_id c =
     c\<lparr>class_rows := filter (\<lambda>k. c_module_id k \<noteq> module_id) (class_rows c)\<rparr>"

definition delete_imports :: "nat \<Rightarrow> catalog \<Rightarrow> catalog" where
  "delete_imports module_id c =
     c\<lparr>import_rows := filter (\<lambda>i. i_module_id i \<noteq> module_id) (import_rows c)\<rparr>"

definition delete_variables :: "nat \<Rightarrow> catalog \<Rightarrow> catalog" where
  "delete_variables module_id c =
     c\<lparr>variable_rows := filter (\<lambda>v. v_module_id v \<noteq> module_id) (variable_rows c)\<rparr>"

definition set_last_indexed :: "nat \<Rightarrow> int \<Rightarrow> catalog \<Rightarrow> catalog" where
  "set_last_indexed module_id t c =
     c\<lparr>module_rows :=
         map (\<lambda>m. if m_id m = module_id then m\<lparr>m_last_indexed := t\<rparr> else m) (module_rows c)\<rparr>"

text \<open>
  \<open>clear_or_create\<close> is the \<open>if module: ... else: ...\<close> of \<open>_index_module\<close>: it returns the
  id of the module row together with the tables. \<open>import_time\<close> is the column default of
  \<open>last_indexed\<close> (evaluated once, when the class \<open>Module\<close> is defined) and \<open>now\<close> the
  reading of the clock.
\<close>

definition clear_or_create ::
  "store \<Rightarrow> int \<Rightarrow> nat \<Rightarrow> ModuleInfo \<Rightarrow> catalog \<Rightarrow> error + (nat \<times> catalog)" where
  "clear_or_create fails import_time project_id module_info c =
     (if fails (SelectModule project_id (mi_path module_info))
      then Inl (StorageFailure (SelectModule project_id (mi_path module_info)))
      else case find (\<lambda>m. m_project_id m = project_id \<and> m_path m = mi_path module_info)
                  (module_rows c) of
        Some module \<Rightarrow>
          (case execute fails (DeleteFunctions (m_id module))
                  (delete_functions (m_id module)) c of
             Inl e \<Rightarrow> Inl e
           | Inr c1 \<Rightarrow>
          (case execute fails (DeleteClasses (m_id module))
                  (delete_classes (m_id module)) c1 of
             Inl e \<Rightarrow> Inl e
           | Inr c2 \<Rightarrow>
          (case execute fails (DeleteImports (m_id module))
                  (delete_imports (m_id module)) c2 of
             Inl e \<Rightarrow> Inl e
           | Inr c3 \<Rightarrow>
          (case execute fails (DeleteVariables (m_id module))
                  (delete_variables (m_id module)) c3 of
             Inl e \<Rightarrow> Inl e
           | Inr c4 \<Rightarrow> Inr (m_id module, c4)))))
      | None \<Rightarrow>
          (let module =
             \<lparr>m_id = fresh_id (map m_id (module_rows c)),
              m_project_id = project_id,
              m_name = mi_module_name module_info,
              m_path = mi_path module_info,
              m_docstring = mi_docstring module_info,
              m_last_indexed = import_time\<rparr>
           in case execute fails (InsertModule module)
                     (add_module module) c of
                Inl e \<Rightarrow> Inl e
              | Inr c1 \<Rightarrow> Inr (m_id module, c1)))"

definition index_module ::
  "store \<Rightarrow> int \<Rightarrow> int \<Rightarrow> nat \<Rightarrow> ModuleInfo \<Rightarrow> catalog \<Rightarrow> error + catalog" where
  "index_module fails import_time now project_id module_info c =
     (case clear_or_create fails import_time project_id module_info c of
        Inl e \<Rightarrow> Inl e
      | Inr (module_id, c1) \<Rightarrow>
     (case for_each (index_import fails module_id) (mi_imports module_info) c1 of
        Inl e \<Rightarrow> Inl e
      | Inr c2 \<Rightarrow>
     (case for_each (index_variable fails module_id) (mi_variables module_info) c2 of
        Inl e \<Rightarrow> Inl e
      | Inr c3 \<Rightarrow>
     (case for_each (index_class fails module_id) (mi_classes module_info) c3 of
        Inl e \<Rightarrow> Inl e
      | Inr c4 \<Rightarrow>
     (case for_each (index_function fails module_id None) (mi_functions module_info) c4 of
        Inl e \<Rightarrow> Inl e
      | Inr c5 \<Rightarrow>
          execute fails (UpdateModule module_id now) (set_last_indexed module_id now) c5)))))"

text \<open>
  The first statements of \<open>index_project\<close>: the project with the root path is looked up
  and, when there is none, created.
\<close>

definition resolve_project ::
  "store \<Rightarrow> int \<Rightarrow> py_str \<Rightarrow> py_str \<Rightarrow> catalog \<Rightarrow> error + (nat \<times> catalog)" where
  "resolve_project fails now name root_path c =
     (if fails (SelectProject root_path) then Inl (StorageFailure (SelectProject root_path))
      else case find (\<lambda>p. p_root_path p = root_path) (project_rows c) of
        Some project \<Rightarrow> Inr (p_id project, c)
      | None \<Rightarrow>
          (let project =
             \<lparr>p_id = fresh_id (map p_id (project_rows c)),
              p_name = name,
              p_root_path = root_path,
              p_created_at = now,
              p_updated_at = now\<rparr>
           in case execute fails (InsertProject project)
                     (add_project project) c of
                Inl e \<Rightarrow> Inl e
              | Inr c1 \<Rightarrow> Inr (p_id project, c1)))"

text \<open>
  The \<open>try\<close> block of \<open>index_project\<close> from its first statement up to and including
  \<open>session.commit()\<close>: it works on the session's view of the tables and gives the project
  id and that view. The \<open>return\<close> statement, which is the last statement of the block, is
  part of \<open>index_project\<close> below.
\<close>

definition index_project_until_commit ::
  "store \<Rightarrow> int \<Rightarrow> int \<Rightarrow> py_str \<Rightarrow> py_str \<Rightarrow> ModuleInfo list \<Rightarrow> catalog
     \<Rightarrow> error + (nat \<times> catalog)" where
  "index_project_until_commit fails import_time now name root_path module_infos c =
     (case resolve_project fails now name root_path c of
        Inl e \<Rightarrow> Inl e
      | Inr (project_id, c1) \<Rightarrow>
     (case for_each (index_module fails import_time now project_id) module_infos c1 of
        Inl e \<Rightarrow> Inl e
      | Inr c2 \<Rightarrow>
     (case execute fails Commit (\<lambda>c. c) c2 of
        Inl e \<Rightarrow> Inl e
      | Inr c3 \<Rightarrow> Inr (project_id, c3))))"

text \<open>
  \<open>index_project\<close> returns what the caller sees (the project id, or the exception that is
  re-raised) and the tables as stored afterwards.

  When a statement up to the commit raises, \<open>session.rollback()\<close> undoes the transaction and
  the tables are as before the call. After the commit, \<open>return project.id\<close> is still inside
  the \<open>try\<close> block. The session factory keeps the default \<open>expire_on_commit\<close>, so the
  commit has expired the project instance and reading its id loads the row again with one
  more \<open>SELECT\<close>. When that statement raises, the exception is re-raised as well, but
  \<open>session.rollback()\<close> has nothing to undo: the tables are those of the committed
  transaction.
\<close>

definition index_project ::
  "store \<Rightarrow> int \<Rightarrow> int \<Rightarrow> py_str \<Rightarrow> py_str \<Rightarrow> ModuleInfo list \<Rightarrow> catalog
     \<Rightarrow> (error + nat) \<times> catalog" where
  "index_project fails import_time now name root_path module_infos db =
     (case index_project_until_commit fails import_time now name root_path module_infos db of
        Inl e \<Rightarrow> (Inl e, db)
      | Inr (project_id, session) \<Rightarrow>
          if fails (RefreshProject project_id)
          then (Inl (StorageFailure (RefreshProject project_id)), session)
          else (Inr project_id, session))"

section \<open>Search (pycodex/core/search.py)\<close>

subsection \<open>Truncation\<close>

text \<open>\<open>py_slice_to xs k\<close> is the Python slice \<open>xs[:k]\<close>: a negative \<open>k\<close> counts from the end.\<close>

definition py_slice_to :: "'a list \<Rightarrow> int \<Rightarrow> 'a list" where
  "py_slice_to xs k =
     (if k < 0 then take (nat (int (length xs) + k)) xs else take (nat k) xs)"

definition truncate_text :: "py_str option \<Rightarrow> int \<Rightarrow> py_str option" where
  "truncate_text text max_length =
     (case text of
        None \<Rightarrow> None
      | Some t \<Rightarrow>
          if t = [] then None
          else if int (length t) \<le> max_length then Some t
          else Some (py_slice_to t max_length @ (str ''...'')))"

subsection \<open>Strings and SQL expressions\<close>

text \<open>
  What Python does with a code point outside ASCII comes from the Unicode database of the
  interpreter, which is a parameter: \<open>ucd_word\<close> says whether the code point is a word
  character (the class \<open>\w\<close> of a regular expression on a \<open>str\<close>), \<open>ucd_space\<close> whether it is
  white space (what \<open>str.strip()\<close> removes), and \<open>ucd_lower\<close> is \<open>str.lower()\<close> on a string
  that has such a code point. On ASCII the three are fixed.
\<close>

record unicode_db =
  ucd_word :: "nat \<Rightarrow> bool"
  ucd_space :: "nat \<Rightarrow> bool"
  ucd_lower :: "py_str \<Rightarrow> py_str"

definition lower_char :: "nat \<Rightarrow> nat" where
  "lower_char cp = (if 65 \<le> cp \<and> cp \<le> 90 then cp + 32 else cp)"

definition lower :: "unicode_db \<Rightarrow> py_str \<Rightarrow> py_str" where
  "lower ucd s = (if list_all (\<lambda>cp. cp < 128) s then map lower_char s else ucd_lower ucd s)"

definition is_word :: "unicode_db \<Rightarrow> nat \<Rightarrow> bool" where
  "is_word ucd cp =
     (if cp < 128
      then (48 \<le> cp \<and> cp \<le> 57) \<or> (65 \<le> cp \<and> cp \<le> 90) \<or> (97 \<le> cp \<and> cp \<le> 122)
           \<or> cp = 95
      else ucd_word ucd cp)"

definition is_space :: "unicode_db \<Rightarrow> nat \<Rightarrow> bool" where
  "is_space ucd cp =
     (if cp < 128 then (9 \<le> cp \<and> cp \<le> 13) \<or> (28 \<le> cp \<and> cp \<le> 32)
      else ucd_space ucd cp)"

definition strip :: "unicode_db \<Rightarrow> py_str \<Rightarrow> py_str" where
  "strip ucd s = rev (dropWhile (is_space ucd) (rev (dropWhile (is_space ucd) s)))"

text \<open>
  The database of Python 3 on the code points U+0080 to U+00FF (Latin-1): the word
  characters, the two white-space characters U+0085 and U+00A0, and the lower-case
  mapping, which adds 32 to the capital letters U+00C0 to U+00DE except U+00D7. It says
  nothing about other code points.
\<close>

definition latin1_word :: "nat \<Rightarrow> bool" where
  "latin1_word cp =
     (cp = 170 \<or> cp = 178 \<or> cp = 179 \<or> cp = 181 \<or> cp = 185 \<or> cp = 186
      \<or> (188 \<le> cp \<and> cp \<le> 190) \<or> (192 \<le> cp \<and> cp \<le> 214)
      \<or> (216 \<le> cp \<and> cp \<le> 246) \<or> (248 \<le> cp \<and> cp \<le> 255))"

definition latin1_lower_char :: "nat \<Rightarrow> nat" where
  "latin1_lower_char cp =
     (if (192 \<le> cp \<and> cp \<le> 214) \<or> (216 \<le> cp \<and> cp \<le> 222) then cp + 32
      else lower_char cp)"

definition latin1 :: unicode_db where
  "latin1 =
     \<lparr>ucd_word = latin1_word,
      ucd_space = (\<lambda>cp. cp = 133 \<or> cp = 160),
      ucd_lower = map latin1_lower_char\<rparr>"

text \<open>SQLite's \<open>lower()\<close> changes the ASCII letters only.\<close>

definition sqlite_lower :: "py_str \<Rightarrow> py_str" where
  "sqlite_lower s = map lower_char s"

text \<open>
  \<open>sql_like pattern s\<close> is SQLite's \<open>s LIKE pattern\<close>: \<open>%\<close> stands for any run of
  characters, \<open>_\<close> for any one character, and ASCII letters match without regard to
  case.
\<close>

fun sql_like :: "py_str \<Rightarrow> py_str \<Rightarrow> bool" where
  "sql_like [] [] = True"
| "sql_like [] (ch # s) = False"
| "sql_like (p # ps) [] = (p = code_point CHR ''%'' \<and> sql_like ps [])"
| "sql_like (p # ps) (ch # s) =
     (if p = code_point CHR ''%'' then sql_like ps (ch # s) \<or> sql_like (p # ps) s
      else (p = code_point CHR ''_'' \<or> lower_char p = lower_char ch) \<and> sql_like ps s)"

text \<open>
  SQL expressions over a nullable column have three values; \<open>None\<close> is SQL's NULL.
  A row passes a \<open>WHERE\<close> clause when the clause is true, not when it is NULL.
\<close>

definition sql_lower :: "py_str option \<Rightarrow> py_str option" where
  "sql_lower col = map_option sqlite_lower col"

definition sql_like_null :: "py_str option \<Rightarrow> py_str \<Rightarrow> bool option" where
  "sql_like_null col pattern = map_option (sql_like pattern) col"

definition sql_or :: "bool option \<Rightarrow> bool option \<Rightarrow> bool option" where
  "sql_or a b =
     (if a = Some True \<or> b = Some True then Some True
      else if a = None \<or> b = None then None
      else Some False)"

definition is_true :: "bool option \<Rightarrow> bool" where
  "is_true a = (a = Some True)"

definition sql_limit :: "int \<Rightarrow> 'a list \<Rightarrow> 'a list" where
  "sql_limit limit rows = (if limit < 0 then rows else take (nat limit) rows)"

text \<open>\<open>select(X).join(Module)\<close>: each row of \<open>X\<close> with the module row its \<open>module_id\<close> names.\<close>

definition join_module :: "catalog \<Rightarrow> ('a \<Rightarrow> nat) \<Rightarrow> 'a list \<Rightarrow> ('a \<times> module_row) list" where
  "join_module c module_id_of rows =
     concat (map (\<lambda>r. map (\<lambda>m. (r, m)) (filter (\<lambda>m. m_id m = module_id_of r) (module_rows c)))
       rows)"

definition base_filters :: "nat option \<Rightarrow> module_row \<Rightarrow> bool" where
  "base_filters project_id m =
     (case project_id of None \<Rightarrow> True | Some p \<Rightarrow> m_project_id m = p)"

definition like_pattern :: "unicode_db \<Rightarrow> py_str \<Rightarrow> py_str" where
  "like_pattern ucd term = str ''%'' @ lower ucd term @ str ''%''"

subsection \<open>Result shapes\<close>

record module_result =
  mr_id :: nat
  mr_name :: py_str
  mr_path :: py_str
  mr_docstring :: "py_str option"

record class_result =
  cr_id :: nat
  cr_name :: py_str
  cr_module_name :: py_str
  cr_path :: py_str
  cr_lineno :: int
  cr_docstring :: "py_str option"

record function_result =
  fr_id :: nat
  fr_name :: py_str
  fr_module_name :: py_str
  fr_class_name :: "py_str option"
  fr_path :: py_str
  fr_lineno :: int
  fr_docstring :: "py_str option"

record variable_result =
  vr_id :: nat
  vr_name :: py_str
  vr_module_name :: py_str
  vr_path :: py_str
  vr_lineno :: int
  vr_value :: "py_str option"

record search_results =
  res_modules :: "module_result list"
  res_classes :: "class_result list"
  res_functions :: "function_result list"
  res_variables :: "variable_result list"

definition module_result_of :: "module_row \<Rightarrow> module_result" where
  "module_result_of m =
     \<lparr>mr_id = m_id m, mr_name = m_name m, mr_path = m_path m,
      mr_docstring = truncate_text (m_docstring m) 200\<rparr>"

definition class_result_of :: "class_row \<times> module_row \<Rightarrow> class_result" where
  "class_result_of km =
     (case km of (k, m) \<Rightarrow>
        \<lparr>cr_id = c_id k, cr_name = c_name k, cr_module_name = m_name m, cr_path = m_path m,
         cr_lineno = c_lineno k, cr_docstring = truncate_text (c_docstring k) 200\<rparr>)"

text \<open>\<open>if function.class_id:\<close> is false for an absent class id and for the id 0.\<close>

definition parent_class_name :: "catalog \<Rightarrow> function_row \<Rightarrow> py_str option" where
  "parent_class_name c f =
     (case f_class_id f of
        None \<Rightarrow> None
      | Some cid \<Rightarrow>
          if cid = 0 then None
          else map_option c_name (find (\<lambda>k. c_id k = cid) (class_rows c)))"

definition function_result_of :: "catalog \<Rightarrow> function_row \<times> module_row \<Rightarrow> function_result" where
  "function_result_of c fm =
     (case fm of (f, m) \<Rightarrow>
        \<lparr>fr_id = f_id f, fr_name = f_name f, fr_module_name = m_name m,
         fr_class_name = parent_class_name c f, fr_path = m_path m, fr_lineno = f_lineno f,
         fr_docstring = truncate_text (f_docstring f) 200\<rparr>)"

definition variable_result_of :: "variable_row \<times> module_row \<Rightarrow> variable_result" where
  "variable_result_of vm =
     (case vm of (v, m) \<Rightarrow>
        \<lparr>vr_id = v_id v, vr_name = v_name v, vr_module_name = m_name m, vr_path = m_path m,
         vr_lineno = v_lineno v, vr_value = truncate_text (v_value v) 100\<rparr>)"

definition no_results :: search_results where
  "no_results = \<lparr>res_modules = [], res_classes = [], res_functions = [], res_variables = []\<rparr>"

subsection \<open>Free-text search\<close>

text \<open>
  The \<open>WHERE\<close> clauses of \<open>_free_text_search\<close>. The Python conditions
  \<open>Module.docstring is not None\<close>, \<open>Class.docstring is None\<close> and
  \<open>Function.docstring is not None\<close> test the column object of the mapped class, never a
  row: the first and the third are always true and the second always false, so each
  clause is \<open>lower(name) LIKE pattern OR lower(docstring) LIKE pattern\<close>.
\<close>

definition name_or_docstring :: "py_str \<Rightarrow> py_str option \<Rightarrow> py_str \<Rightarrow> bool option" where
  "name_or_docstring name docstring pattern =
     sql_or (sql_like_null (sql_lower (Some name)) pattern)
            (sql_like_null (sql_lower docstring) pattern)"

definition module_free_text_where :: "py_str \<Rightarrow> nat option \<Rightarrow> module_row \<Rightarrow> bool" where
  "module_free_text_where pattern project_id m =
     (is_true (name_or_docstring (m_name m) (m_docstring m) pattern)
      \<and> base_filters project_id m)"

definition class_free_text_where ::
  "py_str \<Rightarrow> nat option \<Rightarrow> class_row \<times> module_row \<Rightarrow> bool" where
  "class_free_text_where pattern project_id km =
     (is_true (name_or_docstring (c_name (fst km)) (c_docstring (fst km)) pattern)
      \<and> base_filters project_id (snd km))"

definition function_free_text_where ::
  "py_str \<Rightarrow> nat option \<Rightarrow> function_row \<times> module_row \<Rightarrow> bool" where
  "function_free_text_where pattern project_id fm =
     (is_true (name_or_docstring (f_name (fst fm)) (f_docstring (fst fm)) pattern)
      \<and> base_filters project_id (snd fm))"

definition variable_name_where ::
  "py_str \<Rightarrow> nat option \<Rightarrow> variable_row \<times> module_row \<Rightarrow> bool" where
  "variable_name_where pattern project_id vm =
     (is_true (sql_like_null (sql_lower (Some (v_name (fst vm)))) pattern)
      \<and> base_filters project_id (snd vm))"

definition free_text_search :: "unicode_db \<Rightarrow> py_str \<Rightarrow> nat option \<Rightarrow> int \<Rightarrow> catalog \<Rightarrow> search_results" where
  "free_text_search ucd query project_id limit c =
     (let query_lower = like_pattern ucd query in
      \<lparr>res_modules =
         map module_result_of
           (sql_limit limit (filter (module_free_text_where query_lower project_id) (module_rows c))),
       res_classes =
         map class_result_of
           (sql_limit limit (filter (class_free_text_where query_lower project_id)
              (join_module c c_module_id (class_rows c)))),
       res_functions =
         map (function_result_of c)
           (sql_limit limit (filter (function_free_text_where query_lower project_id)
              (join_module c f_module_id (function_rows c)))),
       res_variables =
         map variable_result_of
           (sql_limit limit (filter (variable_name_where query_lower project_id)
              (join_module c v_module_id (variable_rows c))))\<rparr>)"

subsection \<open>Structured search\<close>

text \<open>
  \<open>re_match query\<close> is \<open>re.match(r"(\w+):(.+)", query)\<close>, giving the two groups. The match
  starts at the first character; \<open>\w+\<close> takes the longest run of word characters, which a
  colon must follow, and \<open>.+\<close> takes at least one character up to the first line feed.
\<close>

definition re_match :: "unicode_db \<Rightarrow> py_str \<Rightarrow> (py_str \<times> py_str) option" where
  "re_match ucd query =
     (let search_type = takeWhile (is_word ucd) query in
      if search_type = [] then None
      else case dropWhile (is_word ucd) query of
        [] \<Rightarrow> None
      | ch # rest \<Rightarrow>
          if ch \<noteq> (code_point CHR '':'') then None
          else (let search_term = takeWhile (\<lambda>x. x \<noteq> (code_point (CHR 0x0A))) rest in
                if search_term = [] then None else Some (search_type, search_term)))"

text \<open>An f-string renders an absent value as \<open>None\<close>.\<close>

definition format_optional :: "py_str option \<Rightarrow> py_str" where
  "format_optional x = (case x of None \<Rightarrow> (str ''None'') | Some s \<Rightarrow> s)"

definition alias_suffix :: "import_row \<Rightarrow> py_str" where
  "alias_suffix i =
     (case i_alias i of
        None \<Rightarrow> []
      | Some a \<Rightarrow> if a = [] then [] else (str '' as '') @ a)"

definition import_result_of :: "import_row \<times> module_row \<Rightarrow> module_result" where
  "import_result_of im =
     (case im of (i, m) \<Rightarrow>
        \<lparr>mr_id = i_module_id i,
         mr_name =
           (if i_is_from_import i
            then (str ''from '') @ format_optional (i_parent_module i) @ (str '' import '') @ i_module_name i
                   @ alias_suffix i
            else (str ''import '') @ i_module_name i @ alias_suffix i),
         mr_path = m_path m,
         mr_docstring = Some (str ''Import in '' @ m_name m)\<rparr>)"

definition import_where :: "py_str \<Rightarrow> nat option \<Rightarrow> import_row \<times> module_row \<Rightarrow> bool" where
  "import_where pattern project_id im =
     (is_true (sql_or (sql_like_null (sql_lower (Some (i_module_name (fst im)))) pattern)
                      (sql_like_null (sql_lower (i_parent_module (fst im))) pattern))
      \<and> base_filters project_id (snd im))"

definition recognized_kinds :: "py_str list" where
  "recognized_kinds =
     [str ''module'', str ''class'', str ''function'', str ''method'', str ''var'', str ''variable'', str ''import'',
      (str ''doc''), str ''docstring'']"

definition structured_search :: "unicode_db \<Rightarrow> py_str \<Rightarrow> nat option \<Rightarrow> int \<Rightarrow> catalog \<Rightarrow> search_results" where
  "structured_search ucd query project_id limit c =
     (case re_match ucd query of
        None \<Rightarrow> free_text_search ucd query project_id limit c
      | Some (search_type, matched_term) \<Rightarrow>
          (let search_term = strip ucd matched_term;
               search_term_lower = like_pattern ucd search_term
           in
           if search_type = str ''module'' then
             no_results\<lparr>res_modules :=
               map module_result_of
                 (sql_limit limit
                    (filter (\<lambda>m. is_true (sql_like_null (sql_lower (Some (m_name m))) search_term_lower)
                                \<and> base_filters project_id m)
                       (module_rows c)))\<rparr>
           else if search_type = str ''class'' then
             no_results\<lparr>res_classes :=
               map class_result_of
                 (sql_limit limit
                    (filter (\<lambda>km. is_true (sql_like_null (sql_lower (Some (c_name (fst km))))
                                             search_term_lower)
                                 \<and> base_filters project_id (snd km))
                       (join_module c c_module_id (class_rows c))))\<rparr>
           else if search_type = str ''function'' \<or> search_type = str ''method'' then
             no_results\<lparr>res_functions :=
               map (function_result_of c)
                 (sql_limit limit
                    (filter (\<lambda>fm. is_true (sql_like_null (sql_lower (Some (f_name (fst fm))))
                                             search_term_lower)
                                 \<and> base_filters project_id (snd fm))
                       (join_module c f_module_id (function_rows c))))\<rparr>
           else if search_type = str ''var'' \<or> search_type = str ''variable'' then
             no_results\<lparr>res_variables :=
               map variable_result_of
                 (sql_limit limit
                    (filter (variable_name_where search_term_lower project_id)
                       (join_module c v_module_id (variable_rows c))))\<rparr>
           else if search_type = str ''import'' then
             no_results\<lparr>res_modules :=
               map import_result_of
                 (sql_limit limit
                    (filter (import_where search_term_lower project_id)
                       (join_module c i_module_id (import_rows c))))\<rparr>
           else if search_type = str ''doc'' \<or> search_type = str ''docstring'' then
             \<lparr>res_modules =
                map module_result_of
                  (sql_limit limit
                     (filter (\<lambda>m. is_true (sql_like_null (sql_lower (m_docstring m)) search_term_lower)
                                 \<and> base_filters project_id m)
                        (module_rows c))),
              res_classes =
                map class_result_of
                  (sql_limit limit
                     (filter (\<lambda>km. is_true (sql_like_null (sql_lower (c_docstring (fst km)))
                                              search_term_lower)
                                  \<and> base_filters project_id (snd km))
                        (join_module c c_module_id (class_rows c)))),
              res_functions =
                map (function_result_of c)
                  (sql_limit limit
                     (filter (\<lambda>fm. is_true (sql_like_null (sql_lower (f_docstring (fst fm)))
                                              search_term_lower)
                                  \<and> base_filters project_id (snd fm))
                        (join_module c f_module_id (function_rows c)))),
              res_variables = []\<rparr>
           else free_text_search ucd search_term project_id limit c))"

definition search_code :: "unicode_db \<Rightarrow> py_str \<Rightarrow> nat option \<Rightarrow> int \<Rightarrow> catalog \<Rightarrow> search_results" where
  "search_code ucd query project_id limit c =
     (if code_point CHR '':'' \<in> set query then structured_search ucd query project_id limit c
      else free_text_search ucd query project_id limit c)"

subsection \<open>File view\<close>

text \<open>
  An entry of the \<open>elements\<close> list: a dictionary with the keys \<open>type\<close>, \<open>name\<close>, \<open>lineno\<close>,
  \<open>end_lineno\<close>, \<open>docstring\<close> for a function, class or method, and with the keys \<open>type\<close>,
  \<open>name\<close>, \<open>lineno\<close>, \<open>value\<close> for a variable.
\<close>

datatype element =
    Code_Element py_str py_str int int "py_str option"
  | Variable_Element py_str py_str int "py_str option"

fun element_type :: "element \<Rightarrow> py_str" where
  "element_type (Code_Element ty name lineno end_lineno docstring) = ty"
| "element_type (Variable_Element ty name lineno val) = ty"

fun element_name :: "element \<Rightarrow> py_str" where
  "element_name (Code_Element ty name lineno end_lineno docstring) = name"
| "element_name (Variable_Element ty name lineno val) = name"

fun element_lineno :: "element \<Rightarrow> int" where
  "element_lineno (Code_Element ty name lineno end_lineno docstring) = lineno"
| "element_lineno (Variable_Element ty name lineno val) = lineno"

definition function_elements :: "catalog \<Rightarrow> nat \<Rightarrow> element list" where
  "function_elements c module_id =
     map (\<lambda>f. Code_Element (str ''function'') (f_name f) (f_lineno f) (f_end_lineno f) (f_docstring f))
       (filter (\<lambda>f. f_module_id f = module_id \<and> f_class_id f = None) (function_rows c))"

definition method_elements :: "catalog \<Rightarrow> class_row \<Rightarrow> element list" where
  "method_elements c class_obj =
     map (\<lambda>f. Code_Element (str ''method'') (c_name class_obj @ (str ''.'') @ f_name f) (f_lineno f)
                (f_end_lineno f) (f_docstring f))
       (filter (\<lambda>f. f_class_id f = Some (c_id class_obj)) (function_rows c))"

definition class_elements :: "catalog \<Rightarrow> nat \<Rightarrow> element list" where
  "class_elements c module_id =
     concat
       (map (\<lambda>k. Code_Element (str ''class'') (c_name k) (c_lineno k) (c_end_lineno k) (c_docstring k)
                   # method_elements c k)
          (filter (\<lambda>k. c_module_id k = module_id) (class_rows c)))"

definition variable_elements :: "catalog \<Rightarrow> nat \<Rightarrow> element list" where
  "variable_elements c module_id =
     map (\<lambda>v. Variable_Element (str ''variable'') (v_name v) (v_lineno v) (v_value v))
       (filter (\<lambda>v. v_module_id v = module_id) (variable_rows c))"

text \<open>The list \<open>elements\<close> as the loops of \<open>get_file_content\<close> fill it, before the sort.\<close>

definition enumerate_elements :: "catalog \<Rightarrow> nat \<Rightarrow> element list" where
  "enumerate_elements c module_id =
     function_elements c module_id @ class_elements c module_id @ variable_elements c module_id"

text \<open>
  The file system is a parameter: \<open>read_file path\<close> is the text of the file, or the
  message of the exception that \<open>open\<close> or \<open>read\<close> raises. \<open>list.sort\<close> is a stable sort,
  as \<open>sort_key\<close> is.
\<close>

definition get_file_content ::
  "(py_str \<Rightarrow> py_str + py_str) \<Rightarrow> py_str \<Rightarrow> catalog \<Rightarrow> (py_str \<times> element list) option" where
  "get_file_content read_file path c =
     (case find (\<lambda>m. m_path m = path) (module_rows c) of
        None \<Rightarrow> None
      | Some module \<Rightarrow>
          (let content =
             (case read_file path of
                Inr text \<Rightarrow> text
              | Inl e \<Rightarrow> (str ''Error reading file: '') @ e)
           in Some (content, sort_key element_lineno (enumerate_elements c (m_id module)))))"

section \<open>A small project\<close>

text \<open>
  One module \<open>/r/a.py\<close> with two imports, a variable at line 1, a class \<open>C\<close> at line 5 with
  a method \<open>m\<close> at line 7, and a function \<open>f\<close> at line 10.
\<close>

definition example_method :: FunctionInfo where
  "example_method =
     \<lparr>fi_name = str ''m'', fi_docstring = None, fi_lineno = 7, fi_end_lineno = 8,
      fi_args = [str ''self''], fi_decorators = [], fi_return_annotation = None\<rparr>"

definition example_function :: FunctionInfo where
  "example_function =
     \<lparr>fi_name = str ''f'', fi_docstring = Some (str ''Compute things.''), fi_lineno = 10,
      fi_end_lineno = 12, fi_args = [], fi_decorators = [], fi_return_annotation = None\<rparr>"

definition example_class :: ClassInfo where
  "example_class =
     \<lparr>ci_name = str ''C'', ci_docstring = None, ci_lineno = 5, ci_end_lineno = 8,
      ci_methods = [example_method], ci_base_classes = [], ci_decorators = []\<rparr>"

definition example_module :: ModuleInfo where
  "example_module =
     \<lparr>mi_path = str ''/r/a.py'', mi_module_name = str ''a'', mi_docstring = None,
      mi_imports =
        [\<lparr>ii_module_name = str ''os'', ii_alias = None, ii_is_from_import = False,
          ii_parent_module = None\<rparr>,
         \<lparr>ii_module_name = str ''path'', ii_alias = Some (str ''p''), ii_is_from_import = True,
          ii_parent_module = Some (str ''os'')\<rparr>],
      mi_functions = [example_function],
      mi_classes = [example_class],
      mi_variables = [(str ''x'', 1, str ''3'')]\<rparr>"

definition example_catalog :: catalog where
  "example_catalog =
     snd (index_project healthy 0 1 (str ''demo'') (str ''/r'') [example_module] empty_catalog)"

text \<open>
  The same project with a second module \<open>/r/b.py\<close> that has a docstring and two imports.
\<close>

definition other_module :: ModuleInfo where
  "other_module =
     \<lparr>mi_path = str ''/r/b.py'', mi_module_name = str ''b'', mi_docstring = Some (str ''Helpers for a.''),
      mi_imports =
        [\<lparr>ii_module_name = str ''os'', ii_alias = None, ii_is_from_import = False,
          ii_parent_module = None\<rparr>,
         \<lparr>ii_module_name = str ''os.path'', ii_alias = None, ii_is_from_import = False,
          ii_parent_module = None\<rparr>],
      mi_functions = [],
      mi_classes = [],
      mi_variables = []\<rparr>"

definition two_module_catalog :: catalog where
  "two_module_catalog =
     snd (index_project healthy 0 1 (str ''demo'') (str ''/r'') [example_module, other_module]
            empty_catalog)"

text \<open>
  A module in which a function, two classes, their methods and a variable all stand at
  line 5, and a second variable at line 3.
\<close>

definition tie_module :: ModuleInfo where
  "tie_module =
     \<lparr>mi_path = str ''/r/t.py'', mi_module_name = str ''t'', mi_docstring = None,
      mi_imports = [],
      mi_functions =
        [\<lparr>fi_name = str ''g'', fi_docstring = None, fi_lineno = 5, fi_end_lineno = 5,
          fi_args = [], fi_decorators = [], fi_return_annotation = None\<rparr>],
      mi_classes =
        [\<lparr>ci_name = str ''K'', ci_docstring = None, ci_lineno = 5, ci_end_lineno = 5,
          ci_methods =
            [\<lparr>fi_name = str ''b'', fi_docstring = None, fi_lineno = 5, fi_end_lineno = 5,
              fi_args = [], fi_decorators = [], fi_return_annotation = None\<rparr>],
          ci_base_classes = [], ci_decorators = []\<rparr>,
         \<lparr>ci_name = str ''J'', ci_docstring = None, ci_lineno = 5, ci_end_lineno = 5,
          ci_methods =
            [\<lparr>fi_name = str ''a'', fi_docstring = None, fi_lineno = 5, fi_end_lineno = 5,
              fi_args = [], fi_decorators = [], fi_return_annotation = None\<rparr>],
          ci_base_classes = [], ci_decorators = []\<rparr>],
      mi_variables = [(str ''v'', 5, str ''1''), (str ''w'', 3, str ''2'')]\<rparr>"

definition tie_catalog :: catalog where
  "tie_catalog =
     snd (index_project healthy 0 1 (str ''demo'') (str ''/r'') [tie_module] empty_catalog)"

text \<open>
  A store that refuses to insert a function row of a given name, and nothing else; and a
  store that refuses the \<open>SELECT\<close> that loads the project row again, and nothing else.
\<close>

definition refuses_function :: "py_str \<Rightarrow> store" where
  "refuses_function name st =
     (case st of InsertFunction row \<Rightarrow> f_name row = name | _ \<Rightarrow> False)"

definition refuses_refresh :: store where
  "refuses_refresh st = (case st of RefreshProject project_id \<Rightarrow> True | _ \<Rightarrow> False)"

section \<open>Properties\<close>

subsection \<open>String literals\<close>

lemma code_point_eq_iff [simp]: "code_point a = code_point b \<longleftrightarrow> a = b"
  by (simp add: code_point_def)

lemma str_eq_iff [simp]: "str a = str b \<longleftrightarrow> a = b"
  by (simp add: str_def inj_map_eq_map inj_on_def code_point_eq_iff)


lemma code_point_in_str [simp]: "code_point ch \<in> set (str s) \<longleftrightarrow> ch \<in> set s"
  by (auto simp: str_def code_point_eq_iff)

subsection \<open>Truncation\<close>

text \<open>
  Claim C5. For a maximum length \<open>mx\<close> (a non-negative number) and a text \<open>t\<close>: a non-empty
  text of length at most \<open>mx\<close> is returned unchanged; a longer text becomes its first \<open>mx\<close>
  characters followed by the marker \<open>...\<close>; the empty text and the absent text both give
  the absent value, and the result is never the empty string. In particular a docstring
  of 250 characters becomes its first 200 characters plus the marker, and one of 150
  characters is unchanged.
\<close>

theorem truncate_text_policy:
  assumes "0 \<le> mx"
  shows "(t \<noteq> [] \<and> int (length t) \<le> mx \<longrightarrow> truncate_text (Some t) mx = Some t)
    \<and> (int (length t) > mx \<longrightarrow> truncate_text (Some t) mx = Some (take (nat mx) t @ (str ''...'')))
    \<and> truncate_text (Some []) mx = None
    \<and> truncate_text None mx = None
    \<and> truncate_text x mx \<noteq> Some []
    \<and> (length d = 250 \<longrightarrow> truncate_text (Some d) 200 = Some (take 200 d @ (str ''...''))
         \<and> length (take 200 d) = 200)
    \<and> (length d' = 150 \<longrightarrow> truncate_text (Some d') 200 = Some d')"
  using assms
  by (auto simp: truncate_text_def py_slice_to_def str_def split: option.splits)

theorem truncate_text_policy_witness:
  "truncate_text (Some (str ''abc'')) 3 = Some (str ''abc'')
   \<and> truncate_text (Some (str ''abcdef'')) 3 = Some (str ''abc...'')
   \<and> truncate_text (Some (replicate 250 (code_point CHR ''x''))) 200 = Some (replicate 200 (code_point CHR ''x'') @ (str ''...''))
   \<and> truncate_text (Some (replicate 150 (code_point CHR ''x''))) 200 = Some (replicate 150 (code_point CHR ''x''))"
  using truncate_text_policy [of 3 "(str ''abc'')" None "replicate 250 (code_point CHR ''x'')" "replicate 150 (code_point CHR ''x'')"]
    truncate_text_policy [of 3 "(str ''abcdef'')" None "replicate 250 (code_point CHR ''x'')" "replicate 150 (code_point CHR ''x'')"]
  by (simp add: str_def)

subsection \<open>Evaluation of the small project\<close>

lemma example_module_row:
  "find (\<lambda>m. m_path m = str ''/r/a.py'') (module_rows example_catalog)
     = Some \<lparr>m_id = 1, m_project_id = 1, m_name = str ''a'', m_path = str ''/r/a.py'',
              m_docstring = None, m_last_indexed = 1\<rparr>"
  by code_simp

lemma example_elements:
  "sort_key element_lineno (enumerate_elements example_catalog 1)
     = [Variable_Element (str ''variable'') (str ''x'') 1 (Some (str ''3'')),
        Code_Element (str ''class'') (str ''C'') 5 8 None,
        Code_Element (str ''method'') (str ''C.m'') 7 8 None,
        Code_Element (str ''function'') (str ''f'') 10 12 (Some (str ''Compute things.''))]"
  by code_simp

subsection \<open>Structured search: unrecognized kinds\<close>

lemma re_match_colon:
  assumes "re_match ucd query = Some (kind, term)"
  shows "(code_point CHR '':'') \<in> set query"
proof -
  from assms obtain rest where "dropWhile (is_word ucd) query = code_point CHR '':'' # rest"
    by (auto simp: re_match_def Let_def split: if_splits list.splits)
  then have "(code_point CHR '':'') \<in> set (dropWhile (is_word ucd) query)" by simp
  then show ?thesis by (rule set_dropWhileD)
qed

lemma re_match_bogus: "re_match ucd (str ''bogus:Foo'') = Some (str ''bogus'', str ''Foo'')"
  by code_simp

lemma strip_Foo: "strip ucd (str ''Foo'') = str ''Foo''"
  by code_simp

text \<open>
  Claim C4. For every Unicode database, every query that \<open>re.match\<close> splits into a kind
  and a term, with a kind that is none of the recognized kinds, \<open>search_code\<close> is the
  free-text search for the term alone (trimmed of surrounding white space, as every
  structured term is); so \<open>search_code "bogus:Foo"\<close> and \<open>search_code "Foo"\<close> give the same
  result on every catalog.
\<close>

theorem unknown_kind_falls_back:
  "(re_match ucd query = Some (kind, term) \<and> kind \<notin> set recognized_kinds
      \<longrightarrow> search_code ucd query project_id limit c
            = free_text_search ucd (strip ucd term) project_id limit c)
   \<and> search_code ucd (str ''bogus:Foo'') project_id limit c = search_code ucd (str ''Foo'') project_id limit c"
proof (intro conjI impI)
  assume a: "re_match ucd query = Some (kind, term) \<and> kind \<notin> set recognized_kinds"
  then have "(code_point CHR '':'') \<in> set query" using re_match_colon by blast
  with a show "search_code ucd query project_id limit c
            = free_text_search ucd (strip ucd term) project_id limit c"
    by (simp add: search_code_def structured_search_def recognized_kinds_def)
next
  have "search_code ucd (str ''bogus:Foo'') project_id limit c
          = free_text_search ucd (str ''Foo'') project_id limit c"
    by (simp add: search_code_def structured_search_def re_match_bogus strip_Foo)
  moreover have "search_code ucd (str ''Foo'') project_id limit c
          = free_text_search ucd (str ''Foo'') project_id limit c"
    by (simp add: search_code_def)
  ultimately show "search_code ucd (str ''bogus:Foo'') project_id limit c
          = search_code ucd (str ''Foo'') project_id limit c"
    by simp
qed

theorem unknown_kind_falls_back_witness:
  "search_code latin1 (str ''kind:  C '') None 20 example_catalog
     = free_text_search latin1 (str ''C'') None 20 example_catalog
   \<and> search_code latin1 (233 # str '':C'') None 20 example_catalog
     = free_text_search latin1 (str ''C'') None 20 example_catalog
   \<and> search_code latin1 (str ''bogus:'' @ [160] @ str ''C'' @ [160]) None 20 example_catalog
     = free_text_search latin1 (str ''C'') None 20 example_catalog"
proof -
  have m1: "re_match latin1 (str ''kind:  C '') = Some (str ''kind'', str ''  C '')"
    by code_simp
  have k1: "str ''kind'' \<notin> set recognized_kinds" by (simp add: recognized_kinds_def)
  have s1: "strip latin1 (str ''  C '') = str ''C''" by code_simp
  have m2: "re_match latin1 (233 # str '':C'') = Some ([233], str ''C'')"
    by code_simp
  have k2: "[233] \<notin> set recognized_kinds" by code_simp
  have s2: "strip latin1 (str ''C'') = str ''C''" by code_simp
  have m3: "re_match latin1 (str ''bogus:'' @ [160] @ str ''C'' @ [160])
              = Some (str ''bogus'', [160] @ str ''C'' @ [160])"
    by code_simp
  have k3: "str ''bogus'' \<notin> set recognized_kinds" by (simp add: recognized_kinds_def)
  have s3: "strip latin1 ([160] @ str ''C'' @ [160]) = str ''C''" by code_simp
  from unknown_kind_falls_back
         [of latin1 "str ''kind:  C ''" "str ''kind''" "str ''  C ''" None 20 example_catalog]
       m1 k1 s1
  have one: "search_code latin1 (str ''kind:  C '') None 20 example_catalog
     = free_text_search latin1 (str ''C'') None 20 example_catalog"
    by simp
  from unknown_kind_falls_back
         [of latin1 "233 # str '':C''" "[233]" "str ''C''" None 20 example_catalog]
       m2 k2 s2
  have two: "search_code latin1 (233 # str '':C'') None 20 example_catalog
     = free_text_search latin1 (str ''C'') None 20 example_catalog"
    by simp
  from unknown_kind_falls_back
         [of latin1 "str ''bogus:'' @ [160] @ str ''C'' @ [160]" "str ''bogus''"
            "[160] @ str ''C'' @ [160]" None 20 example_catalog]
       m3 k3 s3
  have three: "search_code latin1 (str ''bogus:'' @ [160] @ str ''C'' @ [160]) None 20
                 example_catalog
     = free_text_search latin1 (str ''C'') None 20 example_catalog"
    by simp
  from one two three show ?thesis by (intro conjI) assumption+
qed

subsection \<open>File view: missing module and unreadable file\<close>



subsection \<open>File view: order of the elements\<close>

lemma method_elements_named:
  "\<forall>x\<in>set (method_elements c k).
     element_type x = str ''method''
     \<and> (\<exists>f\<in>set (function_rows c).
            f_class_id f = Some (c_id k) \<and> element_name x = c_name k @ str ''.'' @ f_name f)"
  by (auto simp: method_elements_def)

lemma enumerate_elements_rows:
  "enumerate_elements c module_id
     = map (\<lambda>f. Code_Element (str ''function'') (f_name f) (f_lineno f) (f_end_lineno f)
                  (f_docstring f))
         (filter (\<lambda>f. f_module_id f = module_id \<and> f_class_id f = None) (function_rows c))
       @ concat
           (map (\<lambda>k. Code_Element (str ''class'') (c_name k) (c_lineno k) (c_end_lineno k)
                        (c_docstring k)
                      # map (\<lambda>f. Code_Element (str ''method'') (c_name k @ str ''.'' @ f_name f)
                                   (f_lineno f) (f_end_lineno f) (f_docstring f))
                          (filter (\<lambda>f. f_class_id f = Some (c_id k)) (function_rows c)))
              (filter (\<lambda>k. c_module_id k = module_id) (class_rows c)))
       @ map (\<lambda>v. Variable_Element (str ''variable'') (v_name v) (v_lineno v) (v_value v))
           (filter (\<lambda>v. v_module_id v = module_id) (variable_rows c))"
  by (simp add: enumerate_elements_def function_elements_def class_elements_def
        method_elements_def variable_elements_def)

lemma file_view_general:
  assumes "get_file_content read_file path c = Some (content, els)"
  shows "\<exists>m. find (\<lambda>m. m_path m = path) (module_rows c) = Some m
     \<and> sorted (map element_lineno els)
     \<and> mset els = mset (enumerate_elements c (m_id m))
     \<and> (\<forall>k. filter (\<lambda>x. element_lineno x = k) els
             = filter (\<lambda>x. element_lineno x = k) (enumerate_elements c (m_id m)))"
  using assms
  by (auto simp: get_file_content_def Let_def sort_key_stable split: option.splits)

lemma example_file_view:
  "map_option (map (\<lambda>x. (element_type x, element_name x, element_lineno x)) \<circ> snd)
       (get_file_content read_file (str ''/r/a.py'') example_catalog)
     = Some [(str ''variable'', str ''x'', 1), (str ''class'', str ''C'', 5),
             (str ''method'', str ''C.m'', 7), (str ''function'', str ''f'', 10)]"
  using example_elements by (simp add: get_file_content_def example_module_row)

lemma tie_module_row:
  "find (\<lambda>m. m_path m = str ''/r/t.py'') (module_rows tie_catalog)
     = Some \<lparr>m_id = 1, m_project_id = 1, m_name = str ''t'', m_path = str ''/r/t.py'',
              m_docstring = None, m_last_indexed = 1\<rparr>"
  by code_simp

lemma tie_elements:
  "sort_key element_lineno (enumerate_elements tie_catalog 1)
     = [Variable_Element (str ''variable'') (str ''w'') 3 (Some (str ''2'')),
        Code_Element (str ''function'') (str ''g'') 5 5 None,
        Code_Element (str ''class'') (str ''K'') 5 5 None,
        Code_Element (str ''method'') (str ''K.b'') 5 5 None,
        Code_Element (str ''class'') (str ''J'') 5 5 None,
        Code_Element (str ''method'') (str ''J.a'') 5 5 None,
        Variable_Element (str ''variable'') (str ''v'') 5 (Some (str ''1''))]"
  by code_simp

lemma tie_file_view:
  "map_option (map (\<lambda>x. (element_type x, element_name x, element_lineno x)) \<circ> snd)
       (get_file_content read_file (str ''/r/t.py'') tie_catalog)
     = Some [(str ''variable'', str ''w'', 3), (str ''function'', str ''g'', 5),
             (str ''class'', str ''K'', 5), (str ''method'', str ''K.b'', 5),
             (str ''class'', str ''J'', 5), (str ''method'', str ''J.a'', 5),
             (str ''variable'', str ''v'', 5)]"
  using tie_elements by (simp add: get_file_content_def tie_module_row)

text \<open>
  Claim C6. The elements that \<open>get_file_content\<close> returns are the enumeration sorted
  ascending by line number with a stable sort: they are sorted, they are the elements of
  the enumeration, and the elements of any one line keep the order they have in the
  enumeration. The enumeration is, from the rows of the catalog: the top-level functions
  of the module, then its classes, each class immediately followed by its own methods
  (named \<open>Class.method\<close>), then its variables. For the module with a function at line 10, a
  class at line 5 with a method at line 7 and a variable at line 1, the order is
  variable, class, method, function. For the module in which a function \<open>g\<close>, a class \<open>K\<close>
  with its method \<open>b\<close>, a class \<open>J\<close> with its method \<open>a\<close> and a variable \<open>v\<close> all stand at
  line 5, the order at that line is \<open>g\<close>, \<open>K\<close>, \<open>K.b\<close>, \<open>J\<close>, \<open>J.a\<close>, \<open>v\<close>.
\<close>

theorem file_view_ordering:
  "(get_file_content read_file path c = Some (content, els) \<longrightarrow>
      (\<exists>m. find (\<lambda>m. m_path m = path) (module_rows c) = Some m
         \<and> sorted (map element_lineno els)
         \<and> mset els = mset (enumerate_elements c (m_id m))
         \<and> (\<forall>k. filter (\<lambda>x. element_lineno x = k) els
                 = filter (\<lambda>x. element_lineno x = k) (enumerate_elements c (m_id m)))
         \<and> enumerate_elements c (m_id m)
             = function_elements c (m_id m) @ class_elements c (m_id m)
               @ variable_elements c (m_id m)))
   \<and> enumerate_elements c module_id
       = map (\<lambda>f. Code_Element (str ''function'') (f_name f) (f_lineno f) (f_end_lineno f)
                    (f_docstring f))
           (filter (\<lambda>f. f_module_id f = module_id \<and> f_class_id f = None) (function_rows c))
         @ concat
             (map (\<lambda>k. Code_Element (str ''class'') (c_name k) (c_lineno k) (c_end_lineno k)
                          (c_docstring k)
                        # map (\<lambda>f. Code_Element (str ''method'')
                                     (c_name k @ str ''.'' @ f_name f)
                                     (f_lineno f) (f_end_lineno f) (f_docstring f))
                            (filter (\<lambda>f. f_class_id f = Some (c_id k)) (function_rows c)))
                (filter (\<lambda>k. c_module_id k = module_id) (class_rows c)))
         @ map (\<lambda>v. Variable_Element (str ''variable'') (v_name v) (v_lineno v) (v_value v))
             (filter (\<lambda>v. v_module_id v = module_id) (variable_rows c))
   \<and> (\<forall>x\<in>set (method_elements c k).
         element_type x = str ''method''
         \<and> (\<exists>f\<in>set (function_rows c).
                f_class_id f = Some (c_id k)
                \<and> element_name x = c_name k @ str ''.'' @ f_name f))
   \<and> map_option (map (\<lambda>x. (element_type x, element_name x, element_lineno x)) \<circ> snd)
         (get_file_content read_file (str ''/r/a.py'') example_catalog)
       = Some [(str ''variable'', str ''x'', 1), (str ''class'', str ''C'', 5),
               (str ''method'', str ''C.m'', 7), (str ''function'', str ''f'', 10)]
   \<and> map_option (map (\<lambda>x. (element_type x, element_name x, element_lineno x)) \<circ> snd)
         (get_file_content read_file (str ''/r/t.py'') tie_catalog)
       = Some [(str ''variable'', str ''w'', 3), (str ''function'', str ''g'', 5),
               (str ''class'', str ''K'', 5), (str ''method'', str ''K.b'', 5),
               (str ''class'', str ''J'', 5), (str ''method'', str ''J.a'', 5),
               (str ''variable'', str ''v'', 5)]"
proof -
  have general: "\<exists>m. find (\<lambda>m. m_path m = path) (module_rows c) = Some m
         \<and> sorted (map element_lineno els)
         \<and> mset els = mset (enumerate_elements c (m_id m))
         \<and> (\<forall>k. filter (\<lambda>x. element_lineno x = k) els
                 = filter (\<lambda>x. element_lineno x = k) (enumerate_elements c (m_id m)))
         \<and> enumerate_elements c (m_id m)
             = function_elements c (m_id m) @ class_elements c (m_id m)
               @ variable_elements c (m_id m)"
    if "get_file_content read_file path c = Some (content, els)"
    using file_view_general [OF that] by (auto simp: enumerate_elements_def)
  from general enumerate_elements_rows [of c module_id] method_elements_named [of c k]
    example_file_view [of read_file] tie_file_view [of read_file]
  show ?thesis by (intro conjI impI) assumption+
qed

theorem file_view_ordering_witness:
  "get_file_content (\<lambda>p. Inr (str ''g = 1'')) (str ''/r/t.py'') tie_catalog
     = Some (str ''g = 1'',
             [Variable_Element (str ''variable'') (str ''w'') 3 (Some (str ''2'')),
              Code_Element (str ''function'') (str ''g'') 5 5 None,
              Code_Element (str ''class'') (str ''K'') 5 5 None,
              Code_Element (str ''method'') (str ''K.b'') 5 5 None,
              Code_Element (str ''class'') (str ''J'') 5 5 None,
              Code_Element (str ''method'') (str ''J.a'') 5 5 None,
              Variable_Element (str ''variable'') (str ''v'') 5 (Some (str ''1''))])
   \<and> filter (\<lambda>x. element_lineno x = 5)
         [Variable_Element (str ''variable'') (str ''w'') 3 (Some (str ''2'')),
          Code_Element (str ''function'') (str ''g'') 5 5 None,
          Code_Element (str ''class'') (str ''K'') 5 5 None,
          Code_Element (str ''method'') (str ''K.b'') 5 5 None,
          Code_Element (str ''class'') (str ''J'') 5 5 None,
          Code_Element (str ''method'') (str ''J.a'') 5 5 None,
          Variable_Element (str ''variable'') (str ''v'') 5 (Some (str ''1''))]
       = filter (\<lambda>x. element_lineno x = 5) (enumerate_elements tie_catalog 1)
   \<and> enumerate_elements tie_catalog 1
       = [Code_Element (str ''function'') (str ''g'') 5 5 None,
          Code_Element (str ''class'') (str ''K'') 5 5 None,
          Code_Element (str ''method'') (str ''K.b'') 5 5 None,
          Code_Element (str ''class'') (str ''J'') 5 5 None,
          Code_Element (str ''method'') (str ''J.a'') 5 5 None,
          Variable_Element (str ''variable'') (str ''v'') 5 (Some (str ''1'')),
          Variable_Element (str ''variable'') (str ''w'') 3 (Some (str ''2''))]
   \<and> set (method_elements tie_catalog
            \<lparr>c_id = 1, c_module_id = 1, c_name = str ''K'', c_docstring = None, c_lineno = 5,
             c_end_lineno = 5, c_base_classes = [], c_decorators = []\<rparr>)
       = {Code_Element (str ''method'') (str ''K.b'') 5 5 None}"
proof -
  let ?els = "[Variable_Element (str ''variable'') (str ''w'') 3 (Some (str ''2'')),
              Code_Element (str ''function'') (str ''g'') 5 5 None,
              Code_Element (str ''class'') (str ''K'') 5 5 None,
              Code_Element (str ''method'') (str ''K.b'') 5 5 None,
              Code_Element (str ''class'') (str ''J'') 5 5 None,
              Code_Element (str ''method'') (str ''J.a'') 5 5 None,
              Variable_Element (str ''variable'') (str ''v'') 5 (Some (str ''1''))]"
  let ?m = "\<lparr>m_id = 1, m_project_id = 1, m_name = str ''t'', m_path = str ''/r/t.py'',
            m_docstring = None, m_last_indexed = 1\<rparr>"
  have run: "get_file_content (\<lambda>p. Inr (str ''g = 1'')) (str ''/r/t.py'') tie_catalog
     = Some (str ''g = 1'', ?els)"
    using tie_elements by (simp add: get_file_content_def tie_module_row)
  have enum: "enumerate_elements tie_catalog 1
       = [Code_Element (str ''function'') (str ''g'') 5 5 None,
          Code_Element (str ''class'') (str ''K'') 5 5 None,
          Code_Element (str ''method'') (str ''K.b'') 5 5 None,
          Code_Element (str ''class'') (str ''J'') 5 5 None,
          Code_Element (str ''method'') (str ''J.a'') 5 5 None,
          Variable_Element (str ''variable'') (str ''v'') 5 (Some (str ''1'')),
          Variable_Element (str ''variable'') (str ''w'') 3 (Some (str ''2''))]"
    by code_simp
  have meths: "set (method_elements tie_catalog
            \<lparr>c_id = 1, c_module_id = 1, c_name = str ''K'', c_docstring = None, c_lineno = 5,
             c_end_lineno = 5, c_base_classes = [], c_decorators = []\<rparr>)
       = {Code_Element (str ''method'') (str ''K.b'') 5 5 None}"
    by code_simp
  from file_view_ordering
         [where read_file = "\<lambda>p. Inr (str ''g = 1'')" and path = "str ''/r/t.py''"
            and c = tie_catalog and content = "str ''g = 1''" and els = ?els]
       run
  obtain m where m: "find (\<lambda>m. m_path m = str ''/r/t.py'') (module_rows tie_catalog) = Some m"
    and stable: "\<forall>k. filter (\<lambda>x. element_lineno x = k) ?els
                 = filter (\<lambda>x. element_lineno x = k) (enumerate_elements tie_catalog (m_id m))"
    by blast
  from m tie_module_row have one: "m_id m = 1" by auto
  from stable have "filter (\<lambda>x. element_lineno x = 5) ?els
       = filter (\<lambda>x. element_lineno x = 5) (enumerate_elements tie_catalog (m_id m))"
    by blast
  then have "filter (\<lambda>x. element_lineno x = 5) ?els
       = filter (\<lambda>x. element_lineno x = 5) (enumerate_elements tie_catalog 1)"
    by (simp only: one)
  with run enum meths show ?thesis by (intro conjI) assumption+
qed

subsection \<open>Joins and limits\<close>

lemma join_module_iff:
  "(r, m) \<in> set (join_module c module_id_of rows)
     \<longleftrightarrow> m_id m = module_id_of r \<and> r \<in> set rows \<and> m \<in> set (module_rows c)"
  by (auto simp: join_module_def)

lemma sql_limit_subset: "x \<in> set (sql_limit limit rows) \<Longrightarrow> x \<in> set rows"
  by (auto simp: sql_limit_def dest: in_set_takeD split: if_splits)


subsection \<open>Structured search: imports\<close>

lemma import_search_general:
  assumes "re_match ucd query = Some (str ''import'', search_term)"
  shows "\<exists>ims. res_modules (search_code ucd query project_id limit c) = map import_result_of ims
           \<and> map mr_id (res_modules (search_code ucd query project_id limit c))
               = map (i_module_id \<circ> fst) ims
           \<and> (\<forall>im\<in>set ims. fst im \<in> set (import_rows c) \<and> snd im \<in> set (module_rows c)
                  \<and> m_id (snd im) = i_module_id (fst im))"
proof -
  let ?ims = "sql_limit limit (filter (import_where (like_pattern ucd (strip ucd search_term)) project_id)
             (join_module c i_module_id (import_rows c)))"
  from assms have "(code_point CHR '':'') \<in> set query" by (rule re_match_colon)
  with assms have r: "res_modules (search_code ucd query project_id limit c)
                        = map import_result_of ?ims"
    by (simp add: search_code_def structured_search_def no_results_def)
  have ids: "map mr_id (map import_result_of ?ims) = map (i_module_id \<circ> fst) ?ims"
    by (simp add: import_result_of_def split_def)
  have "\<forall>im\<in>set ?ims. fst im \<in> set (import_rows c) \<and> snd im \<in> set (module_rows c)
                  \<and> m_id (snd im) = i_module_id (fst im)"
  proof
    fix im assume "im \<in> set ?ims"
    then have "(fst im, snd im) \<in> set (join_module c i_module_id (import_rows c))"
      by (auto dest: sql_limit_subset)
    then show "fst im \<in> set (import_rows c) \<and> snd im \<in> set (module_rows c)
                  \<and> m_id (snd im) = i_module_id (fst im)"
      by (simp only: join_module_iff)
  qed
  with r ids show ?thesis by metis
qed

lemma two_module_imports:
  "map mr_id (res_modules (search_code ucd (str ''import:os'') None 20 two_module_catalog))
     = [1, 1, 2, 2]
   \<and> map (\<lambda>i. (i_id i, i_module_id i)) (import_rows two_module_catalog)
     = [(1, 1), (2, 1), (3, 2), (4, 2)]"
  by code_simp

text \<open>
  Claim C10. For a query \<open>import:term\<close>, every result is made from a matching import row
  joined with its module, and its \<open>id\<close> is the \<open>module_id\<close> of the import row, which is the
  id of the owning module, not the id of the import row. In the project with two modules
  the import rows 3 and 4 of module 2 both give a result with id 2.
\<close>

theorem import_result_id:
  "(re_match ucd query = Some (str ''import'', search_term) \<longrightarrow>
      (\<exists>ims. res_modules (search_code ucd query project_id limit c) = map import_result_of ims
           \<and> map mr_id (res_modules (search_code ucd query project_id limit c))
               = map (i_module_id \<circ> fst) ims
           \<and> (\<forall>im\<in>set ims. fst im \<in> set (import_rows c) \<and> snd im \<in> set (module_rows c)
                  \<and> m_id (snd im) = i_module_id (fst im))))
   \<and> mr_id (import_result_of (i, m)) = i_module_id i
   \<and> map mr_id (res_modules (search_code ucd (str ''import:os'') None 20 two_module_catalog))
       = [1, 1, 2, 2]
   \<and> map (\<lambda>i. (i_id i, i_module_id i)) (import_rows two_module_catalog)
       = [(1, 1), (2, 1), (3, 2), (4, 2)]"
  using import_search_general [of ucd query search_term project_id limit c] two_module_imports
  by (simp add: import_result_of_def)

theorem import_result_id_witness:
  "res_modules (search_code latin1 (str ''import:path'') None 20 example_catalog)
     = [\<lparr>mr_id = 1, mr_name = str ''from os import path as p'', mr_path = str ''/r/a.py'',
         mr_docstring = Some (str ''Import in a'')\<rparr>]
   \<and> (\<exists>ims. res_modules (search_code latin1 (str ''import:path'') None 20 example_catalog)
               = map import_result_of ims
           \<and> map mr_id (res_modules (search_code latin1 (str ''import:path'') None 20 example_catalog))
               = map (i_module_id \<circ> fst) ims)"
proof -
  have m: "re_match latin1 (str ''import:path'') = Some (str ''import'', str ''path'')" by code_simp
  have run: "res_modules (search_code latin1 (str ''import:path'') None 20 example_catalog)
     = [\<lparr>mr_id = 1, mr_name = str ''from os import path as p'', mr_path = str ''/r/a.py'',
         mr_docstring = Some (str ''Import in a'')\<rparr>]"
    by code_simp
  from import_result_id
         [where query = "(str ''import:path'')" and search_term = "(str ''path'')" and project_id = None
            and limit = 20 and c = example_catalog]
       m
  have "\<exists>ims. res_modules (search_code latin1 (str ''import:path'') None 20 example_catalog)
               = map import_result_of ims
           \<and> map mr_id (res_modules (search_code latin1 (str ''import:path'') None 20 example_catalog))
               = map (i_module_id \<circ> fst) ims"
    by blast
  with run show ?thesis by blast
qed

subsection \<open>Free-text search: rows without a docstring\<close>









subsection \<open>Indexer: statements, loops and what they leave alone\<close>

lemma execute_Inr: "execute fails st eff c = Inr c' \<Longrightarrow> c' = eff c"
  by (simp add: execute_def split: if_splits)

lemma execute_Inl: "execute fails st eff c = Inl e \<Longrightarrow> e = StorageFailure st \<and> fails st"
  by (simp add: execute_def split: if_splits)

lemma execute_healthy: "execute healthy st eff c = Inr (eff c)"
  by (simp add: execute_def healthy_def)

lemma for_each_invariant:
  assumes step: "\<And>x c c'. body x c = Inr c' \<Longrightarrow> P c \<Longrightarrow> P c'"
  shows "for_each body xs c = Inr c' \<Longrightarrow> P c \<Longrightarrow> P c'"
proof (induction xs arbitrary: c)
  case Nil
  then show ?case by simp
next
  case (Cons x xs)
  then show ?case by (auto split: sum.splits dest: step)
qed

lemma for_each_frame:
  assumes run: "for_each body xs c = Inr c'"
    and step: "\<And>x s s'. body x s = Inr s'
                 \<Longrightarrow> project_rows s' = project_rows s \<and> module_rows s' = module_rows s"
  shows "project_rows c' = project_rows c \<and> module_rows c' = module_rows c"
proof -
  let ?P = "\<lambda>s. project_rows s = project_rows c \<and> module_rows s = module_rows c"
  have "\<And>x s s'. body x s = Inr s' \<Longrightarrow> ?P s \<Longrightarrow> ?P s'"
    using step by fastforce
  from for_each_invariant [where P = ?P, OF this run] show ?thesis by simp
qed

lemma for_each_storage_failure:
  assumes run: "for_each body xs c = Inl e"
    and step: "\<And>x s e. body x s = Inl e \<Longrightarrow> \<exists>st. e = StorageFailure st \<and> fails st"
  shows "\<exists>st. e = StorageFailure st \<and> fails st"
  using run
proof (induction xs arbitrary: c)
  case Nil
  then show ?case by simp
next
  case (Cons x xs)
  then show ?case by (auto split: sum.splits dest: step)
qed

lemma for_each_total:
  assumes step: "\<And>x c. \<exists>c'. body x c = Inr c'"
  shows "\<exists>c'. for_each body xs c = Inr c'"
proof (induction xs arbitrary: c)
  case Nil
  show ?case by simp
next
  case (Cons x xs)
  from step obtain c1 where "body x c = Inr c1" by blast
  with Cons show ?case by simp
qed

lemma index_import_frame:
  "index_import fails mid ii c = Inr c' \<Longrightarrow> project_rows c' = project_rows c \<and> module_rows c' = module_rows c"
  by (auto simp: index_import_def Let_def add_import_def dest!: execute_Inr)

lemma index_variable_frame:
  "index_variable fails mid item c = Inr c' \<Longrightarrow> project_rows c' = project_rows c \<and> module_rows c' = module_rows c"
  by (auto simp: index_variable_def Let_def add_variable_def split: prod.splits dest!: execute_Inr)

lemma index_function_frame:
  "index_function fails mid cid fi c = Inr c' \<Longrightarrow> project_rows c' = project_rows c \<and> module_rows c' = module_rows c"
  by (auto simp: index_function_def Let_def add_function_def dest!: execute_Inr)

lemma index_class_frame:
  assumes "index_class fails mid ci c = Inr c'"
  shows "project_rows c' = project_rows c \<and> module_rows c' = module_rows c"
proof -
  from assms obtain row c1 where
      ins: "execute fails (InsertClass row) (add_class row) c = Inr c1"
      and loop: "for_each (index_function fails mid (Some (c_id row))) (ci_methods ci) c1 = Inr c'"
    by (auto simp: index_class_def Let_def split: sum.splits)
  from ins have c1: "project_rows c1 = project_rows c \<and> module_rows c1 = module_rows c"
    by (auto simp: add_class_def dest!: execute_Inr)
  have "project_rows c' = project_rows c1 \<and> module_rows c' = module_rows c1"
    by (rule for_each_frame [OF loop]) (rule index_function_frame)
  with c1 show ?thesis by simp
qed

lemma clear_or_create_existing:
  assumes "find (\<lambda>m. m_project_id m = pid \<and> m_path m = mi_path mi) (module_rows c) = Some m"
      and "clear_or_create fails it pid mi c = Inr (mid, c')"
  shows "mid = m_id m \<and> project_rows c' = project_rows c \<and> module_rows c' = module_rows c"
  using assms
  by (auto simp: clear_or_create_def delete_functions_def delete_classes_def
        delete_imports_def delete_variables_def
      split: if_splits sum.splits dest!: execute_Inr)

lemma clear_or_create_projects:
  assumes "clear_or_create fails it pid mi c = Inr (mid, c')"
  shows "project_rows c' = project_rows c"
  using assms
  by (auto simp: clear_or_create_def Let_def delete_functions_def delete_classes_def
        delete_imports_def delete_variables_def add_module_def
      split: if_splits sum.splits option.splits dest!: execute_Inr)

lemma index_module_steps:
  assumes "index_module fails it now pid mi c = Inr c'"
  obtains mid c1 c2 c3 c4 c5 where
    "clear_or_create fails it pid mi c = Inr (mid, c1)"
    "for_each (index_import fails mid) (mi_imports mi) c1 = Inr c2"
    "for_each (index_variable fails mid) (mi_variables mi) c2 = Inr c3"
    "for_each (index_class fails mid) (mi_classes mi) c3 = Inr c4"
    "for_each (index_function fails mid None) (mi_functions mi) c4 = Inr c5"
    "c' = set_last_indexed mid now c5"
  using assms
  by (auto simp: index_module_def split: sum.splits prod.splits dest!: execute_Inr)

lemma inserts_frame:
  assumes "for_each (index_import fails mid) imps c1 = Inr c2"
    "for_each (index_variable fails mid) vars c2 = Inr c3"
    "for_each (index_class fails mid) clss c3 = Inr c4"
    "for_each (index_function fails mid None) funs c4 = Inr c5"
  shows "project_rows c5 = project_rows c1 \<and> module_rows c5 = module_rows c1"
proof -
  have "project_rows c2 = project_rows c1 \<and> module_rows c2 = module_rows c1"
    by (rule for_each_frame [OF assms(1)]) (rule index_import_frame)
  moreover have "project_rows c3 = project_rows c2 \<and> module_rows c3 = module_rows c2"
    by (rule for_each_frame [OF assms(2)]) (rule index_variable_frame)
  moreover have "project_rows c4 = project_rows c3 \<and> module_rows c4 = module_rows c3"
    by (rule for_each_frame [OF assms(3)]) (rule index_class_frame)
  moreover have "project_rows c5 = project_rows c4 \<and> module_rows c5 = module_rows c4"
    by (rule for_each_frame [OF assms(4)]) (rule index_function_frame)
  ultimately show ?thesis by simp
qed

lemma index_module_projects:
  assumes "index_module fails it now pid mi c = Inr c'"
  shows "project_rows c' = project_rows c"
proof -
  from assms obtain mid c1 c2 c3 c4 c5 where
    s: "clear_or_create fails it pid mi c = Inr (mid, c1)"
    "for_each (index_import fails mid) (mi_imports mi) c1 = Inr c2"
    "for_each (index_variable fails mid) (mi_variables mi) c2 = Inr c3"
    "for_each (index_class fails mid) (mi_classes mi) c3 = Inr c4"
    "for_each (index_function fails mid None) (mi_functions mi) c4 = Inr c5"
    "c' = set_last_indexed mid now c5"
    by (rule index_module_steps)
  from inserts_frame [OF s(2-5)] clear_or_create_projects [OF s(1)] s(6)
  show ?thesis by (simp add: set_last_indexed_def)
qed

lemma index_module_existing:
  assumes found: "find (\<lambda>m. m_project_id m = pid \<and> m_path m = mi_path mi) (module_rows c) = Some m"
      and run: "index_module fails it now pid mi c = Inr c'"
  shows "module_rows c'
           = map (\<lambda>r. if m_id r = m_id m then r\<lparr>m_last_indexed := now\<rparr> else r) (module_rows c)"
proof -
  from run obtain mid c1 c2 c3 c4 c5 where
    s: "clear_or_create fails it pid mi c = Inr (mid, c1)"
    "for_each (index_import fails mid) (mi_imports mi) c1 = Inr c2"
    "for_each (index_variable fails mid) (mi_variables mi) c2 = Inr c3"
    "for_each (index_class fails mid) (mi_classes mi) c3 = Inr c4"
    "for_each (index_function fails mid None) (mi_functions mi) c4 = Inr c5"
    "c' = set_last_indexed mid now c5"
    by (rule index_module_steps)
  from inserts_frame [OF s(2-5)] clear_or_create_existing [OF found s(1)] s(6)
  show ?thesis by (simp add: set_last_indexed_def)
qed

text \<open>Every error that the indexer returns is the failure of a statement that the store refused.\<close>

lemma index_import_error: "index_import fails mid ii c = Inl e \<Longrightarrow> \<exists>st. e = StorageFailure st \<and> fails st"
  by (auto simp: index_import_def Let_def dest!: execute_Inl)

lemma index_variable_error: "index_variable fails mid item c = Inl e \<Longrightarrow> \<exists>st. e = StorageFailure st \<and> fails st"
  by (auto simp: index_variable_def Let_def split: prod.splits dest!: execute_Inl)

lemma index_function_error: "index_function fails mid cid fi c = Inl e \<Longrightarrow> \<exists>st. e = StorageFailure st \<and> fails st"
  by (auto simp: index_function_def Let_def dest!: execute_Inl)

lemma index_class_error:
  assumes "index_class fails mid ci c = Inl e"
  shows "\<exists>st. e = StorageFailure st \<and> fails st"
proof -
  from assms consider
      (ins) row where "execute fails (InsertClass row) (add_class row) c = Inl e"
    | (meths) cid c1 where
        "for_each (index_function fails mid (Some cid)) (ci_methods ci) c1 = Inl e"
    by (auto simp: index_class_def Let_def split: sum.splits)
  then show ?thesis
  proof cases
    case ins
    then show ?thesis by (auto dest!: execute_Inl)
  next
    case meths
    then show ?thesis by (rule for_each_storage_failure) (rule index_function_error)
  qed
qed

lemma clear_or_create_error:
  "clear_or_create fails it pid mi c = Inl e \<Longrightarrow> \<exists>st. e = StorageFailure st \<and> fails st"
  by (auto simp: clear_or_create_def Let_def split: if_splits option.splits sum.splits
      dest!: execute_Inl)

lemma index_module_error:
  assumes "index_module fails it now pid mi c = Inl e"
  shows "\<exists>st. e = StorageFailure st \<and> fails st"
proof -
  from assms consider
      (res) "clear_or_create fails it pid mi c = Inl e"
    | (imps) mid c1 where "for_each (index_import fails mid) (mi_imports mi) c1 = Inl e"
    | (vars) mid c1 where "for_each (index_variable fails mid) (mi_variables mi) c1 = Inl e"
    | (clss) mid c1 where "for_each (index_class fails mid) (mi_classes mi) c1 = Inl e"
    | (funs) mid c1 where
        "for_each (index_function fails mid None) (mi_functions mi) c1 = Inl e"
    | (stmp) mid c1 where
        "execute fails (UpdateModule mid now) (set_last_indexed mid now) c1 = Inl e"
    by (auto simp: index_module_def split: sum.splits prod.splits)
  then show ?thesis
  proof cases
    case res
    then show ?thesis by (rule clear_or_create_error)
  next
    case imps
    then show ?thesis by (rule for_each_storage_failure) (rule index_import_error)
  next
    case vars
    then show ?thesis by (rule for_each_storage_failure) (rule index_variable_error)
  next
    case clss
    then show ?thesis by (rule for_each_storage_failure) (rule index_class_error)
  next
    case funs
    then show ?thesis by (rule for_each_storage_failure) (rule index_function_error)
  next
    case stmp
    then show ?thesis by (auto dest!: execute_Inl)
  qed
qed

lemma resolve_project_error:
  "resolve_project fails now name root c = Inl e \<Longrightarrow> \<exists>st. e = StorageFailure st \<and> fails st"
  by (auto simp: resolve_project_def Let_def split: if_splits option.splits sum.splits
      dest!: execute_Inl)

lemma index_project_until_commit_error:
  assumes "index_project_until_commit fails it now name root mis c = Inl e"
  shows "\<exists>st. e = StorageFailure st \<and> fails st"
proof -
  from assms consider
      (res) "resolve_project fails now name root c = Inl e"
    | (mods) pid c1 where "for_each (index_module fails it now pid) mis c1 = Inl e"
    | (comm) c1 where "execute fails Commit (\<lambda>c. c) c1 = Inl e"
    by (auto simp: index_project_until_commit_def split: sum.splits prod.splits)
  then show ?thesis
  proof cases
    case res
    then show ?thesis by (rule resolve_project_error)
  next
    case mods
    then show ?thesis by (rule for_each_storage_failure) (rule index_module_error)
  next
    case comm
    then show ?thesis by (auto dest!: execute_Inl)
  qed
qed

text \<open>On a store that refuses nothing the indexer returns a result.\<close>

lemma index_module_healthy: "\<exists>c'. index_module healthy it now pid mi c = Inr c'"
proof (cases "index_module healthy it now pid mi c")
  case (Inl e)
  then have "\<exists>st. e = StorageFailure st \<and> healthy st" by (rule index_module_error)
  then show ?thesis by (simp add: healthy_def)
next
  case (Inr c')
  then show ?thesis by blast
qed

lemma index_project_until_commit_healthy: "\<exists>pid c'. index_project_until_commit healthy it now name root mis c = Inr (pid, c')"
proof (cases "index_project_until_commit healthy it now name root mis c")
  case (Inl e)
  then have "\<exists>st. e = StorageFailure st \<and> healthy st" by (rule index_project_until_commit_error)
  then show ?thesis by (simp add: healthy_def)
next
  case (Inr r)
  then show ?thesis by (cases r) simp
qed

subsection \<open>Indexer: one transaction\<close>

lemma index_project_rolls_back:
  assumes "index_project_until_commit fails it now name root mis db = Inl e"
  shows "index_project fails it now name root mis db = (Inl e, db)
    \<and> (\<exists>st. e = StorageFailure st \<and> fails st)"
  using assms index_project_until_commit_error [OF assms] by (simp add: index_project_def)

text \<open>
  Claim C2, evaluated. The small project is indexed into the empty catalog on a store that
  refuses only the \<open>SELECT\<close> which loads the project row again for \<open>return project.id\<close>.
  The caller gets that failure, and the stored tables are those of the whole, committed
  call, not the empty catalog. On a store that refuses the last insert instead, the same
  call returns that failure and the catalog stays empty.
\<close>

theorem index_project_error_after_commit:
  "index_project refuses_refresh 0 1 (str ''demo'') (str ''/r'') [example_module] empty_catalog
     = (Inl (StorageFailure (RefreshProject 1)), example_catalog)
   \<and> example_catalog \<noteq> empty_catalog
   \<and> module_rows example_catalog
       = [\<lparr>m_id = 1, m_project_id = 1, m_name = str ''a'', m_path = str ''/r/a.py'',
           m_docstring = None, m_last_indexed = 1\<rparr>]
   \<and> index_project (refuses_function (str ''f'')) 0 1 (str ''demo'') (str ''/r'')
         [example_module] empty_catalog
     = (Inl (StorageFailure (InsertFunction
              \<lparr>f_id = 2, f_module_id = 1, f_class_id = None, f_name = str ''f'',
               f_docstring = Some (str ''Compute things.''), f_lineno = 10,
               f_end_lineno = 12, f_args = [], f_decorators = [],
               f_return_annotation = None\<rparr>)),
        empty_catalog)"
  by code_simp

subsection \<open>Indexer: one project per root path\<close>

lemma for_each_modules_projects:
  assumes "for_each (index_module fails it now pid) mis c = Inr c'"
  shows "project_rows c' = project_rows c"
  by (rule for_each_invariant [where P = "\<lambda>s. project_rows s = project_rows c", OF _ assms])
     (auto dest: index_module_projects)

lemma index_project_until_commit_steps:
  assumes "index_project_until_commit fails it now name root mis c = Inr (pid, c')"
  obtains c1 where "resolve_project fails now name root c = Inr (pid, c1)"
    "for_each (index_module fails it now pid) mis c1 = Inr c'"
  using assms
  by (auto simp: index_project_until_commit_def split: sum.splits prod.splits dest!: execute_Inr)

lemma index_project_found:
  assumes found: "find (\<lambda>p. p_root_path p = root) (project_rows c) = Some row"
  shows "\<exists>c'. index_project healthy it now name root mis c = (Inr (p_id row), c')
           \<and> project_rows c' = project_rows c"
proof -
  obtain pid c' where run: "index_project_until_commit healthy it now name root mis c = Inr (pid, c')"
    using index_project_until_commit_healthy by blast
  then obtain c1 where r: "resolve_project healthy now name root c = Inr (pid, c1)"
    and l: "for_each (index_module healthy it now pid) mis c1 = Inr c'"
    by (rule index_project_until_commit_steps)
  from r found have "pid = p_id row" "c1 = c"
    by (auto simp: resolve_project_def split: if_splits)
  with l run for_each_modules_projects [OF l] show ?thesis
    by (simp add: index_project_def healthy_def)
qed

lemma index_project_fresh:
  assumes none: "find (\<lambda>p. p_root_path p = root) (project_rows c) = None"
  shows "\<exists>c'. index_project healthy it now name root mis c
                 = (Inr (fresh_id (map p_id (project_rows c))), c')
           \<and> project_rows c'
               = project_rows c @ [\<lparr>p_id = fresh_id (map p_id (project_rows c)), p_name = name,
                    p_root_path = root, p_created_at = now, p_updated_at = now\<rparr>]"
proof -
  obtain pid c' where run: "index_project_until_commit healthy it now name root mis c = Inr (pid, c')"
    using index_project_until_commit_healthy by blast
  then obtain c1 where r: "resolve_project healthy now name root c = Inr (pid, c1)"
    and l: "for_each (index_module healthy it now pid) mis c1 = Inr c'"
    by (rule index_project_until_commit_steps)
  from r none have "pid = fresh_id (map p_id (project_rows c))"
    "project_rows c1 = project_rows c @ [\<lparr>p_id = fresh_id (map p_id (project_rows c)), p_name = name,
                    p_root_path = root, p_created_at = now, p_updated_at = now\<rparr>]"
    by (auto simp: resolve_project_def Let_def add_project_def split: if_splits sum.splits dest!: execute_Inr)
  with l run for_each_modules_projects [OF l] show ?thesis
    by (simp add: index_project_def healthy_def)
qed

lemma find_append_new:
  "find P xs = None \<Longrightarrow> P y \<Longrightarrow> find P (xs @ [y]) = Some y"
  by (induction xs) (auto split: if_splits)

lemma index_project_then_found:
  "\<exists>pid c1 row. index_project healthy it now name root mis c = (Inr pid, c1)
      \<and> find (\<lambda>p. p_root_path p = root) (project_rows c1) = Some row \<and> p_id row = pid"
proof (cases "find (\<lambda>p. p_root_path p = root) (project_rows c)")
  case None
  from index_project_fresh [OF None, of it now name mis] obtain c1 where
    "index_project healthy it now name root mis c
                 = (Inr (fresh_id (map p_id (project_rows c))), c1)"
    "project_rows c1
               = project_rows c @ [\<lparr>p_id = fresh_id (map p_id (project_rows c)), p_name = name,
                    p_root_path = root, p_created_at = now, p_updated_at = now\<rparr>]"
    by blast
  with None show ?thesis by (simp add: find_append_new)
next
  case (Some row)
  from index_project_found [OF Some, of it now name mis] Some show ?thesis by auto
qed

lemma example_reused:
  "fst (index_project healthy 0 2 (str ''renamed'') (str ''/r'') [] example_catalog) = Inr 1
   \<and> map (\<lambda>p. (p_id p, p_name p, p_root_path p))
         (project_rows (snd (index_project healthy 0 2 (str ''renamed'') (str ''/r'') [] example_catalog)))
       = [(1, str ''demo'', str ''/r'')]
   \<and> fst (index_project healthy 0 2 (str ''renamed'') (str ''/R'') [] example_catalog) = Inr 2
   \<and> map (\<lambda>p. (p_id p, p_name p, p_root_path p))
         (project_rows (snd (index_project healthy 0 2 (str ''renamed'') (str ''/R'') [] example_catalog)))
       = [(1, str ''demo'', str ''/r''), (2, str ''renamed'', str ''/R'')]"
  by code_simp

text \<open>
  Claim C3. After a call of \<open>index_project\<close> with a root path, a second call with the same
  root path, whatever its name, modules and time, returns the same project id and leaves
  the table of projects as the first call left it. The match on the root path is exact:
  \<open>/R\<close> is another project than \<open>/r\<close>.
\<close>

theorem project_reused_by_root_path:
  "(\<exists>pid c1 c2 row.
       index_project healthy it t1 name1 root mis1 c = (Inr pid, c1)
     \<and> find (\<lambda>p. p_root_path p = root) (project_rows c1) = Some row \<and> p_id row = pid
     \<and> index_project healthy it t2 name2 root mis2 c1 = (Inr pid, c2)
     \<and> project_rows c2 = project_rows c1)
   \<and> fst (index_project healthy 0 2 (str ''renamed'') (str ''/r'') [] example_catalog) = Inr 1
   \<and> map (\<lambda>p. (p_id p, p_name p, p_root_path p))
         (project_rows (snd (index_project healthy 0 2 (str ''renamed'') (str ''/r'') [] example_catalog)))
       = [(1, str ''demo'', str ''/r'')]
   \<and> fst (index_project healthy 0 2 (str ''renamed'') (str ''/R'') [] example_catalog) = Inr 2
   \<and> map (\<lambda>p. (p_id p, p_name p, p_root_path p))
         (project_rows (snd (index_project healthy 0 2 (str ''renamed'') (str ''/R'') [] example_catalog)))
       = [(1, str ''demo'', str ''/r''), (2, str ''renamed'', str ''/R'')]"
proof -
  obtain pid c1 row where first: "index_project healthy it t1 name1 root mis1 c = (Inr pid, c1)"
    and found: "find (\<lambda>p. p_root_path p = root) (project_rows c1) = Some row"
    and pid: "p_id row = pid"
    using index_project_then_found [of it t1 name1 root mis1 c] by blast
  from index_project_found [OF found, of it t2 name2 mis2] pid obtain c2 where
    "index_project healthy it t2 name2 root mis2 c1 = (Inr pid, c2)"
    "project_rows c2 = project_rows c1"
    by auto
  with first found pid have "\<exists>pid c1 c2 row.
       index_project healthy it t1 name1 root mis1 c = (Inr pid, c1)
     \<and> find (\<lambda>p. p_root_path p = root) (project_rows c1) = Some row \<and> p_id row = pid
     \<and> index_project healthy it t2 name2 root mis2 c1 = (Inr pid, c2)
     \<and> project_rows c2 = project_rows c1"
    by blast
  with example_reused show ?thesis by simp
qed

subsection \<open>Indexer: the row of a module that is indexed again\<close>

lemma index_project_single_existing:
  assumes p: "find (\<lambda>p. p_root_path p = root) (project_rows c) = Some p"
    and m: "find (\<lambda>m. m_project_id m = p_id p \<and> m_path m = mi_path mi) (module_rows c) = Some m"
  shows "\<exists>c'. index_project healthy it now name root [mi] c = (Inr (p_id p), c')
     \<and> module_rows c'
         = map (\<lambda>r. if m_id r = m_id m then r\<lparr>m_last_indexed := now\<rparr> else r) (module_rows c)"
proof -
  obtain pid c' where run: "index_project_until_commit healthy it now name root [mi] c = Inr (pid, c')"
    using index_project_until_commit_healthy by blast
  then obtain c1 where r: "resolve_project healthy now name root c = Inr (pid, c1)"
    and l: "for_each (index_module healthy it now pid) [mi] c1 = Inr c'"
    by (rule index_project_until_commit_steps)
  from r p have eq: "pid = p_id p" "c1 = c"
    by (auto simp: resolve_project_def split: if_splits)
  from l eq have "index_module healthy it now (p_id p) mi c = Inr c'"
    by (simp split: sum.splits)
  from index_module_existing [OF m this] run eq show ?thesis
    by (simp add: index_project_def healthy_def)
qed

text \<open>
  Claim C9. When \<open>_index_module\<close> finds a module row for the project and path, the
  table of modules afterwards is the table before with \<open>last_indexed\<close> of that row set to
  the current time: no name and no docstring changes, whatever the new description
  says. The same holds for a call of \<open>index_project\<close> with one description.
\<close>

theorem reindex_keeps_module_fields:
  "(find (\<lambda>m. m_project_id m = pid \<and> m_path m = mi_path mi) (module_rows c) = Some m
      \<and> index_module fails it now pid mi c = Inr c'
    \<longrightarrow> module_rows c'
          = map (\<lambda>r. if m_id r = m_id m then r\<lparr>m_last_indexed := now\<rparr> else r) (module_rows c)
        \<and> map m_name (module_rows c') = map m_name (module_rows c)
        \<and> map m_docstring (module_rows c') = map m_docstring (module_rows c))
   \<and> (find (\<lambda>p. p_root_path p = root) (project_rows c) = Some p
      \<and> find (\<lambda>m. m_project_id m = p_id p \<and> m_path m = mi_path mi) (module_rows c) = Some m
    \<longrightarrow> (\<exists>c2. index_project healthy it now name root [mi] c = (Inr (p_id p), c2)
          \<and> module_rows c2
              = map (\<lambda>r. if m_id r = m_id m then r\<lparr>m_last_indexed := now\<rparr> else r)
                  (module_rows c)
          \<and> map m_name (module_rows c2) = map m_name (module_rows c)
          \<and> map m_docstring (module_rows c2) = map m_docstring (module_rows c)))"
proof -
  have names: "map m_name (map (\<lambda>r. if m_id r = k then r\<lparr>m_last_indexed := now\<rparr> else r) rows)
                 = map m_name rows
      \<and> map m_docstring (map (\<lambda>r. if m_id r = k then r\<lparr>m_last_indexed := now\<rparr> else r) rows)
                 = map m_docstring rows" for k and rows :: "module_row list"
    by (induction rows) auto
  have one: "module_rows c'
          = map (\<lambda>r. if m_id r = m_id m then r\<lparr>m_last_indexed := now\<rparr> else r) (module_rows c)
        \<and> map m_name (module_rows c') = map m_name (module_rows c)
        \<and> map m_docstring (module_rows c') = map m_docstring (module_rows c)"
    if "find (\<lambda>m. m_project_id m = pid \<and> m_path m = mi_path mi) (module_rows c) = Some m
      \<and> index_module fails it now pid mi c = Inr c'"
    using that index_module_existing [of pid mi c m fails it now c'] names [of "m_id m" "module_rows c"]
    by simp
  have two: "\<exists>c2. index_project healthy it now name root [mi] c = (Inr (p_id p), c2)
          \<and> module_rows c2
              = map (\<lambda>r. if m_id r = m_id m then r\<lparr>m_last_indexed := now\<rparr> else r)
                  (module_rows c)
          \<and> map m_name (module_rows c2) = map m_name (module_rows c)
          \<and> map m_docstring (module_rows c2) = map m_docstring (module_rows c)"
    if "find (\<lambda>p. p_root_path p = root) (project_rows c) = Some p
      \<and> find (\<lambda>m. m_project_id m = p_id p \<and> m_path m = mi_path mi) (module_rows c) = Some m"
    using that index_project_single_existing [of root c p mi m it now name]
      names [of "m_id m" "module_rows c"]
    by auto
  from one two show ?thesis by blast
qed

theorem reindex_keeps_module_fields_witness:
  "module_rows
     (snd (index_project healthy 0 2 (str ''demo'') (str ''/r'')
             [example_module\<lparr>mi_module_name := str ''renamed'',
                mi_docstring := Some (str ''A new docstring.'')\<rparr>] example_catalog))
     = [\<lparr>m_id = 1, m_project_id = 1, m_name = str ''a'', m_path = str ''/r/a.py'',
         m_docstring = None, m_last_indexed = 2\<rparr>]
   \<and> module_rows example_catalog
     = [\<lparr>m_id = 1, m_project_id = 1, m_name = str ''a'', m_path = str ''/r/a.py'',
         m_docstring = None, m_last_indexed = 1\<rparr>]
   \<and> (\<exists>c'. index_module healthy 0 2 1
               (example_module\<lparr>mi_module_name := str ''renamed'',
                  mi_docstring := Some (str ''A new docstring.'')\<rparr>) example_catalog = Inr c'
          \<and> module_rows c'
              = [\<lparr>m_id = 1, m_project_id = 1, m_name = str ''a'', m_path = str ''/r/a.py'',
                  m_docstring = None, m_last_indexed = 2\<rparr>])"
proof -
  let ?mi = "example_module\<lparr>mi_module_name := str ''renamed'',
                mi_docstring := Some (str ''A new docstring.'')\<rparr>"
  let ?p = "\<lparr>p_id = 1, p_name = str ''demo'', p_root_path = str ''/r'', p_created_at = 1,
            p_updated_at = 1\<rparr>"
  let ?m = "\<lparr>m_id = 1, m_project_id = 1, m_name = str ''a'', m_path = str ''/r/a.py'',
            m_docstring = None, m_last_indexed = 1\<rparr>"
  have p: "find (\<lambda>p. p_root_path p = str ''/r'') (project_rows example_catalog) = Some ?p"
    by code_simp
  have m: "find (\<lambda>m. m_project_id m = p_id ?p \<and> m_path m = mi_path ?mi)
             (module_rows example_catalog) = Some ?m"
    by code_simp
  have m1: "find (\<lambda>m. m_project_id m = 1 \<and> m_path m = mi_path ?mi)
             (module_rows example_catalog) = Some ?m"
    by code_simp
  have rows: "module_rows example_catalog = [?m]"
    by code_simp
  from reindex_keeps_module_fields
         [where root = "(str ''/r'')" and c = example_catalog and p = ?p and mi = ?mi and m = ?m
            and it = 0 and now = 2 and name = "(str ''demo'')"]
       p m
  obtain c2 where
    "index_project healthy 0 2 (str ''demo'') (str ''/r'') [?mi] example_catalog = (Inr (p_id ?p), c2)"
    "module_rows c2
       = map (\<lambda>r. if m_id r = m_id ?m then r\<lparr>m_last_indexed := 2\<rparr> else r)
           (module_rows example_catalog)"
    by blast
  with rows have project: "module_rows
     (snd (index_project healthy 0 2 (str ''demo'') (str ''/r'') [?mi] example_catalog))
     = [\<lparr>m_id = 1, m_project_id = 1, m_name = str ''a'', m_path = str ''/r/a.py'',
         m_docstring = None, m_last_indexed = 2\<rparr>]"
    by simp
  obtain c' where run: "index_module healthy 0 2 1 ?mi example_catalog = Inr c'"
    using index_module_healthy by blast
  from reindex_keeps_module_fields
         [where pid = 1 and c = example_catalog and mi = ?mi and m = ?m and fails = healthy
            and it = 0 and now = 2 and c' = c']
       m1 run
  have "module_rows c'
       = map (\<lambda>r. if m_id r = m_id ?m then r\<lparr>m_last_indexed := 2\<rparr> else r)
           (module_rows example_catalog)"
    by blast
  with rows run have "\<exists>c'. index_module healthy 0 2 1 ?mi example_catalog = Inr c'
          \<and> module_rows c'
              = [\<lparr>m_id = 1, m_project_id = 1, m_name = str ''a'', m_path = str ''/r/a.py'',
                  m_docstring = None, m_last_indexed = 2\<rparr>]"
    by simp
  with project rows show ?thesis by simp
qed

subsection \<open>Indexer: methods of a module that is indexed again\<close>

text \<open>
  Claim C1, evaluated. The small project has one method row \<open>m\<close>. Indexing the same
  description again leaves two method rows \<open>m\<close>: the row of the first run is still there,
  now attached to the new class row, which got the id of the deleted one. Indexing a
  description without classes and functions leaves the method row of the first run,
  although the module then has no function at all.
\<close>

theorem reindex_leaves_stale_methods:
  "map (\<lambda>f. (f_id f, f_class_id f, f_name f)) (function_rows example_catalog)
     = [(1, Some 1, str ''m''), (2, None, str ''f'')]
   \<and> map (\<lambda>f. (f_id f, f_class_id f, f_name f))
       (function_rows
          (snd (index_project healthy 0 2 (str ''demo'') (str ''/r'') [example_module] example_catalog)))
     = [(1, Some 1, str ''m''), (2, Some 1, str ''m''), (3, None, str ''f'')]
   \<and> map (\<lambda>f. (f_id f, f_class_id f, f_name f))
       (function_rows
          (snd (index_project healthy 0 2 (str ''demo'') (str ''/r'')
                  [example_module\<lparr>mi_functions := [], mi_classes := []\<rparr>] example_catalog)))
     = [(1, Some 1, str ''m'')]"
  by code_simp

end
